theory Spec2Isabelle
  imports Complex_Main "HOL-Library.Word"
begin

unbundle bit_operations_syntax

section \<open>Values of type double\<close>

text \<open>
  A C++ \<^verbatim>\<open>double\<close> is modelled as a real number extended by the two infinities and
  NaN. The comparisons are the IEEE-754 ones (every comparison with NaN is false, so
  \<^verbatim>\<open>NaN == NaN\<close> is false). Rounding, overflow of a finite result and the sign of zero
  are not modelled: a finite result is the exact real, and the one zero behaves as \<^verbatim>\<open>+0.0\<close>.
\<close>

datatype double = Finite real | PosInf | NegInf | NaN

text \<open>\<^verbatim>\<open>a == b\<close>, \<^verbatim>\<open>a < b\<close> and \<^verbatim>\<open>a <= b\<close> on doubles.\<close>

fun d_eq :: "double \<Rightarrow> double \<Rightarrow> bool" where
  "d_eq (Finite a) (Finite b) = (a = b)"
| "d_eq PosInf PosInf = True"
| "d_eq NegInf NegInf = True"
| "d_eq _ _ = False"

fun d_less :: "double \<Rightarrow> double \<Rightarrow> bool" where
  "d_less (Finite a) (Finite b) = (a < b)"
| "d_less (Finite a) PosInf = True"
| "d_less NegInf (Finite b) = True"
| "d_less NegInf PosInf = True"
| "d_less _ _ = False"

definition d_le :: "double \<Rightarrow> double \<Rightarrow> bool" where
  "d_le a b = (d_less a b \<or> d_eq a b)"

text \<open>The arithmetic operators \<^verbatim>\<open>-a\<close>, \<^verbatim>\<open>a + b\<close>, \<^verbatim>\<open>a - b\<close>, \<^verbatim>\<open>a * b\<close>, \<^verbatim>\<open>a / b\<close>.\<close>

fun d_neg :: "double \<Rightarrow> double" where
  "d_neg (Finite a) = Finite (- a)"
| "d_neg PosInf = NegInf"
| "d_neg NegInf = PosInf"
| "d_neg NaN = NaN"

fun d_add :: "double \<Rightarrow> double \<Rightarrow> double" where
  "d_add (Finite a) (Finite b) = Finite (a + b)"
| "d_add NaN _ = NaN"
| "d_add _ NaN = NaN"
| "d_add PosInf NegInf = NaN"
| "d_add NegInf PosInf = NaN"
| "d_add PosInf _ = PosInf"
| "d_add NegInf _ = NegInf"
| "d_add _ PosInf = PosInf"
| "d_add _ NegInf = NegInf"

definition d_sub :: "double \<Rightarrow> double \<Rightarrow> double" where
  "d_sub a b = d_add a (d_neg b)"

text \<open>The sign of a non-NaN value: the zero counts as positive.\<close>

fun d_negative :: "double \<Rightarrow> bool" where
  "d_negative (Finite a) = (a < 0)"
| "d_negative NegInf = True"
| "d_negative _ = False"

definition d_signed_inf :: "bool \<Rightarrow> double" where
  "d_signed_inf neg = (if neg then NegInf else PosInf)"

fun d_mul :: "double \<Rightarrow> double \<Rightarrow> double" where
  "d_mul (Finite a) (Finite b) = Finite (a * b)"
| "d_mul NaN _ = NaN"
| "d_mul _ NaN = NaN"
| "d_mul (Finite a) b = (if a = 0 then NaN else d_signed_inf ((a < 0) \<noteq> d_negative b))"
| "d_mul a (Finite b) = (if b = 0 then NaN else d_signed_inf (d_negative a \<noteq> (b < 0)))"
| "d_mul a b = d_signed_inf (d_negative a \<noteq> d_negative b)"

fun d_div :: "double \<Rightarrow> double \<Rightarrow> double" where
  "d_div (Finite a) (Finite b) =
     (if b \<noteq> 0 then Finite (a / b)
      else if a = 0 then NaN
      else d_signed_inf (a < 0))"
| "d_div NaN _ = NaN"
| "d_div _ NaN = NaN"
| "d_div (Finite a) _ = Finite 0"
| "d_div a (Finite b) = d_signed_inf (d_negative a \<noteq> (b < 0))"
| "d_div _ _ = NaN"

section \<open>The functions of \<^verbatim>\<open><cmath>\<close>\<close>

text \<open>
  The library functions the evaluator and the simplifier call, with the special values
  of Annex F of the C standard. On finite arguments they are the real functions.
\<close>

fun std_sin :: "double \<Rightarrow> double" where
  "std_sin (Finite a) = Finite (sin a)"
| "std_sin _ = NaN"

fun std_cos :: "double \<Rightarrow> double" where
  "std_cos (Finite a) = Finite (cos a)"
| "std_cos _ = NaN"

fun std_tan :: "double \<Rightarrow> double" where
  "std_tan (Finite a) = Finite (tan a)"
| "std_tan _ = NaN"

fun std_exp :: "double \<Rightarrow> double" where
  "std_exp (Finite a) = Finite (exp a)"
| "std_exp PosInf = PosInf"
| "std_exp NegInf = Finite 0"
| "std_exp NaN = NaN"

fun std_log :: "double \<Rightarrow> double" where
  "std_log (Finite a) = (if a < 0 then NaN else if a = 0 then NegInf else Finite (ln a))"
| "std_log PosInf = PosInf"
| "std_log _ = NaN"

fun std_sqrt :: "double \<Rightarrow> double" where
  "std_sqrt (Finite a) = (if a < 0 then NaN else Finite (sqrt a))"
| "std_sqrt PosInf = PosInf"
| "std_sqrt _ = NaN"

fun std_abs :: "double \<Rightarrow> double" where
  "std_abs (Finite a) = Finite \<bar>a\<bar>"
| "std_abs NaN = NaN"
| "std_abs _ = PosInf"

text \<open>\<^verbatim>\<open>std::fmod(x, y)\<close>: the remainder of the division truncated towards zero.\<close>

fun std_fmod :: "double \<Rightarrow> double \<Rightarrow> double" where
  "std_fmod (Finite a) (Finite b) =
     (if b = 0 then NaN else Finite (a - b * of_int (if 0 \<le> a / b then \<lfloor>a / b\<rfloor> else \<lceil>a / b\<rceil>)))"
| "std_fmod NaN _ = NaN"
| "std_fmod _ NaN = NaN"
| "std_fmod (Finite a) _ = Finite a"
| "std_fmod _ _ = NaN"

text \<open>\<^verbatim>\<open>std::pow(x, y)\<close>: \<^verbatim>\<open>pow(x, 0)\<close> and \<^verbatim>\<open>pow(1, y)\<close> are 1 even for a NaN.\<close>

definition is_odd_integer :: "real \<Rightarrow> bool" where
  "is_odd_integer b = (b = of_int \<lfloor>b\<rfloor> \<and> odd \<lfloor>b\<rfloor>)"

fun std_pow :: "double \<Rightarrow> double \<Rightarrow> double" where
  "std_pow x (Finite b) =
     (if b = 0 then Finite 1
      else case x of
        Finite a \<Rightarrow>
          if a = 1 then Finite 1
          else if 0 < a then Finite (a powr b)
          else if a = 0 then (if 0 < b then Finite 0 else PosInf)
          else if b = of_int \<lfloor>b\<rfloor> then Finite ((if odd \<lfloor>b\<rfloor> then - 1 else 1) * (\<bar>a\<bar> powr b))
          else NaN
      | PosInf \<Rightarrow> if 0 < b then PosInf else Finite 0
      | NegInf \<Rightarrow> if 0 < b then (if is_odd_integer b then NegInf else PosInf) else Finite 0
      | NaN \<Rightarrow> NaN)"
| "std_pow x NaN = (if x = Finite 1 then Finite 1 else NaN)"
| "std_pow x PosInf =
     (case x of
        Finite a \<Rightarrow> if \<bar>a\<bar> = 1 then Finite 1 else if \<bar>a\<bar> < 1 then Finite 0 else PosInf
      | NaN \<Rightarrow> NaN
      | _ \<Rightarrow> PosInf)"
| "std_pow x NegInf =
     (case x of
        Finite a \<Rightarrow> if \<bar>a\<bar> = 1 then Finite 1 else if \<bar>a\<bar> < 1 then PosInf else Finite 0
      | NaN \<Rightarrow> NaN
      | _ \<Rightarrow> Finite 0)"

section \<open>The AST model\<close>

datatype NodeType =
    NUMBER | BOOLEAN | STRING | VARIABLE | BINARY_OP | UNARY_OP | FUNCTION | MATRIX | TENSOR
  | ASSIGNMENT | BLOCK | IF | WHILE | FOR | RETURN

datatype BinaryOp =
    ADD | SUB | MUL | DIV | MOD | POW | EQ | NEQ | LT | LEQ | GT | GEQ | AND_op | OR_op

datatype UnaryOp =
    NEGATE | NOT_op | SIN | COS | TAN | ASIN | ACOS | ATAN | EXP | LOG | SQRT
  | TRANSPOSE | DETERMINANT | INVERSE

text \<open>
  A value of type \<^verbatim>\<open>Node*\<close>: the null pointer, or a pointer to a node object. The first
  field of every object is its identity: \<^verbatim>\<open>NodePool::create\<close> appends every node it makes
  to \<^verbatim>\<open>nodes\<close> and never removes one, so an object is identified by its index there.
  Two pointers are equal (\<^verbatim>\<open>a == b\<close>) when both are null or both carry the same
  identity. The other fields are those of the structs of \<^verbatim>\<open>ast.h\<close>, the children being
  pointers again.
\<close>

datatype node =
    Nullptr
  | NumberNode nat double
  | BooleanNode nat bool
  | StringNode nat string
  | VariableNode nat string
  | BinaryOpNode nat BinaryOp node node
  | UnaryOpNode nat UnaryOp node
  | FunctionNode nat string "node list"
  | MatrixNode nat "node list list"
  | TensorNode nat "64 word list" "node list"
  | AssignmentNode nat string node
  | BlockNode nat "node list"
  | IfNode nat node node node
  | WhileNode nat node node
  | ForNode nat node node node node
  | ReturnNode nat node

text \<open>The identity of the object a pointer points to (\<open>None\<close> for the null pointer).\<close>

fun address :: "node \<Rightarrow> nat option" where
  "address Nullptr = None"
| "address (NumberNode p _) = Some p"
| "address (BooleanNode p _) = Some p"
| "address (StringNode p _) = Some p"
| "address (VariableNode p _) = Some p"
| "address (BinaryOpNode p _ _ _) = Some p"
| "address (UnaryOpNode p _ _) = Some p"
| "address (FunctionNode p _ _) = Some p"
| "address (MatrixNode p _) = Some p"
| "address (TensorNode p _ _) = Some p"
| "address (AssignmentNode p _ _) = Some p"
| "address (BlockNode p _) = Some p"
| "address (IfNode p _ _ _) = Some p"
| "address (WhileNode p _ _) = Some p"
| "address (ForNode p _ _ _ _) = Some p"
| "address (ReturnNode p _) = Some p"

text \<open>\<^verbatim>\<open>node->type\<close>, for a pointer that is not null.\<close>

fun node_type :: "node \<Rightarrow> NodeType option" where
  "node_type Nullptr = None"
| "node_type (NumberNode _ _) = Some NUMBER"
| "node_type (BooleanNode _ _) = Some BOOLEAN"
| "node_type (StringNode _ _) = Some STRING"
| "node_type (VariableNode _ _) = Some VARIABLE"
| "node_type (BinaryOpNode _ _ _ _) = Some BINARY_OP"
| "node_type (UnaryOpNode _ _ _) = Some UNARY_OP"
| "node_type (FunctionNode _ _ _) = Some FUNCTION"
| "node_type (MatrixNode _ _) = Some MATRIX"
| "node_type (TensorNode _ _ _) = Some TENSOR"
| "node_type (AssignmentNode _ _ _) = Some ASSIGNMENT"
| "node_type (BlockNode _ _) = Some BLOCK"
| "node_type (IfNode _ _ _ _) = Some IF"
| "node_type (WhileNode _ _ _) = Some WHILE"
| "node_type (ForNode _ _ _ _ _) = Some FOR"
| "node_type (ReturnNode _ _) = Some RETURN"

section \<open>Errors\<close>

text \<open>
  Every exception of the source is a value: \<^verbatim>\<open>EvaluationError\<close> and
  \<^verbatim>\<open>std::runtime_error\<close> carry their message, \<^verbatim>\<open>ParseError\<close> its message, line and
  column. \<open>UndefinedBehaviour\<close> stands for what C++ leaves undefined (reading a vector
  out of range, dereferencing a null pointer or an end iterator).
\<close>

datatype error =
    EvaluationError string
  | RuntimeError string
  | ParseError string nat nat
  | UndefinedBehaviour

section \<open>The evaluator\<close>

text \<open>\<^verbatim>\<open>std::to_string\<close> of a \<^verbatim>\<open>size_t\<close>: the decimal digits.\<close>

definition digit :: "nat \<Rightarrow> char" where
  "digit d = ''0123456789'' ! (d mod 10)"

fun to_string :: "nat \<Rightarrow> string" where
  "to_string n = (if n < 10 then [digit n] else to_string (n div 10) @ [digit (n mod 10)])"

declare to_string.simps [simp del]

definition validate_args :: "string \<Rightarrow> 64 word \<Rightarrow> 64 word \<Rightarrow> error + unit" where
  "validate_args name expected actual =
     (if expected \<noteq> actual
      then Inl (EvaluationError (''Function '' @ name @ '' expects '' @ to_string (unat expected)
                  @ '' arguments, got '' @ to_string (unat actual)))
      else Inr ())"

fun eval_binary_op :: "BinaryOp \<Rightarrow> double \<Rightarrow> double \<Rightarrow> error + double" where
  "eval_binary_op ADD left right = Inr (d_add left right)"
| "eval_binary_op SUB left right = Inr (d_sub left right)"
| "eval_binary_op MUL left right = Inr (d_mul left right)"
| "eval_binary_op DIV left right =
     (if d_eq right (Finite 0) then Inl (EvaluationError ''Division by zero'')
      else Inr (d_div left right))"
| "eval_binary_op POW left right = Inr (std_pow left right)"
| "eval_binary_op MOD left right =
     (if d_eq right (Finite 0) then Inl (EvaluationError ''Modulo by zero'')
      else Inr (std_fmod left right))"
| "eval_binary_op _ left right = Inl (EvaluationError ''Unknown binary operator'')"

fun eval_unary_op :: "UnaryOp \<Rightarrow> double \<Rightarrow> error + double" where
  "eval_unary_op NEGATE operand = Inr (d_neg operand)"
| "eval_unary_op SIN operand = Inr (std_sin operand)"
| "eval_unary_op COS operand = Inr (std_cos operand)"
| "eval_unary_op TAN operand = Inr (std_tan operand)"
| "eval_unary_op EXP operand = Inr (std_exp operand)"
| "eval_unary_op LOG operand =
     (if d_le operand (Finite 0) then Inl (EvaluationError ''Logarithm of non-positive number'')
      else Inr (std_log operand))"
| "eval_unary_op SQRT operand =
     (if d_less operand (Finite 0) then Inl (EvaluationError ''Square root of negative number'')
      else Inr (std_sqrt operand))"
| "eval_unary_op _ operand = Inl (EvaluationError ''Unknown unary operator'')"

text \<open>
  An entry of the function table is a \<^verbatim>\<open>std::function<double(const std::vector<double>&)>\<close>:
  a closure. It returns a value or throws, and while it runs it can reach
  \<^verbatim>\<open>global_context\<close> through the operations of this file. The model gives a closure its
  arguments and the variable bindings to read, and has it return, with its value or
  exception, the calls of \<^verbatim>\<open>set_variable\<close> and \<^verbatim>\<open>register_function\<close> it made, in their
  order. (A closure that calls \<^verbatim>\<open>evaluate\<close> itself is outside the model.)
\<close>

datatype impl =
    Impl (run_impl: "double list \<Rightarrow> (string \<rightharpoonup> double) \<Rightarrow> (error + double) \<times> effect list")
and effect =
    SetVariable string double
  | RegisterFunction string impl "64 word"

text \<open>The environment: the variable bindings and the function table.\<close>

record EvalContext =
  variables :: "string \<rightharpoonup> double"
  functions_tbl :: "string \<rightharpoonup> impl"

definition eval_matrix_op :: "node \<Rightarrow> EvalContext \<Rightarrow> error + double" where
  "eval_matrix_op n ctx = Inl (EvaluationError ''Matrix operations not yet implemented'')"

definition eval_tensor_op :: "node \<Rightarrow> EvalContext \<Rightarrow> error + double" where
  "eval_tensor_op n ctx = Inl (EvaluationError ''Tensor operations not yet implemented'')"

text \<open>
  The operations on \<^verbatim>\<open>global_context\<close>, with the context as an explicit state. The
  \<^verbatim>\<open>arity\<close> parameter of \<^verbatim>\<open>register_function\<close> is a \<^verbatim>\<open>size_t\<close>, and so is
  \<^verbatim>\<open>args.size()\<close>: both are 64-bit words. \<open>registered_impl\<close> is the closure
  \<^verbatim>\<open>register_function\<close> stores: the arity check, then the function it was given.
\<close>

definition set_variable :: "string \<Rightarrow> double \<Rightarrow> EvalContext \<Rightarrow> EvalContext" where
  "set_variable name v ctx = ctx\<lparr>variables := (variables ctx)(name \<mapsto> v)\<rparr>"

definition get_variable :: "string \<Rightarrow> EvalContext \<Rightarrow> error + double" where
  "get_variable name ctx =
     (case variables ctx name of
        None \<Rightarrow> Inl (EvaluationError (''Undefined variable: '' @ name))
      | Some v \<Rightarrow> Inr v)"

definition registered_impl :: "string \<Rightarrow> impl \<Rightarrow> 64 word \<Rightarrow> impl" where
  "registered_impl name func arity =
     Impl (\<lambda>args vars.
       case validate_args name arity (of_nat (length args)) of
         Inl e \<Rightarrow> (Inl e, [])
       | Inr _ \<Rightarrow> run_impl func args vars)"

definition register_function ::
  "string \<Rightarrow> impl \<Rightarrow> 64 word \<Rightarrow> EvalContext \<Rightarrow> (error + unit) \<times> EvalContext" where
  "register_function name func arity ctx =
     (if functions_tbl ctx name \<noteq> None
      then (Inl (EvaluationError (''Function already registered: '' @ name)), ctx)
      else (Inr (), ctx\<lparr>functions_tbl := (functions_tbl ctx)(name \<mapsto> registered_impl name func arity)\<rparr>))"

text \<open>
  A call of a closure on the context: the calls it made to \<^verbatim>\<open>set_variable\<close> and
  \<^verbatim>\<open>register_function\<close> take effect in their order, and a \<^verbatim>\<open>register_function\<close> that
  throws ends the closure with that exception.
\<close>

fun apply_effects :: "effect list \<Rightarrow> EvalContext \<Rightarrow> (error + unit) \<times> EvalContext" where
  "apply_effects [] ctx = (Inr (), ctx)"
| "apply_effects (SetVariable name v # es) ctx = apply_effects es (set_variable name v ctx)"
| "apply_effects (RegisterFunction name func arity # es) ctx =
     (case register_function name func arity ctx of
        (Inl e, ctx1) \<Rightarrow> (Inl e, ctx1)
      | (Inr _, ctx1) \<Rightarrow> apply_effects es ctx1)"

definition call_impl :: "impl \<Rightarrow> double list \<Rightarrow> EvalContext \<Rightarrow> (error + double) \<times> EvalContext" where
  "call_impl f args ctx =
     (case run_impl f args (variables ctx) of
        (res, effects) \<Rightarrow>
          (case apply_effects effects ctx of
             (Inl e, ctx1) \<Rightarrow> (Inl e, ctx1)
           | (Inr _, ctx1) \<Rightarrow> (res, ctx1)))"

text \<open>
  \<^verbatim>\<open>evaluate(node, ctx)\<close>. The context is passed by reference and is the one the closures
  of the table act on (\<^verbatim>\<open>evaluate(node)\<close> passes \<^verbatim>\<open>global_context\<close>), so the model returns,
  beside the value or the error, the context as the call leaves it, and every recursive
  call works on the context the call before it left. \<open>evaluate_args\<close> is the loop over
  the arguments of a call: it stops at the first argument that throws.
\<close>

fun evaluate :: "node \<Rightarrow> EvalContext \<Rightarrow> (error + double) \<times> EvalContext"
and evaluate_args :: "node list \<Rightarrow> double list \<Rightarrow> EvalContext \<Rightarrow> (error + double list) \<times> EvalContext"
where
  "evaluate Nullptr ctx = (Inl (EvaluationError ''Null node in evaluation''), ctx)"
| "evaluate (NumberNode p v) ctx = (Inr v, ctx)"
| "evaluate (VariableNode p name) ctx =
     (case variables ctx name of
        None \<Rightarrow> (Inl (EvaluationError (''Undefined variable: '' @ name)), ctx)
      | Some v \<Rightarrow> (Inr v, ctx))"
| "evaluate (BinaryOpNode p op l r) ctx =
     (case evaluate l ctx of
        (Inl e, ctx1) \<Rightarrow> (Inl e, ctx1)
      | (Inr left, ctx1) \<Rightarrow>
          (case evaluate r ctx1 of
             (Inl e, ctx2) \<Rightarrow> (Inl e, ctx2)
           | (Inr right, ctx2) \<Rightarrow> (eval_binary_op op left right, ctx2)))"
| "evaluate (UnaryOpNode p op x) ctx =
     (case evaluate x ctx of
        (Inl e, ctx1) \<Rightarrow> (Inl e, ctx1)
      | (Inr operand, ctx1) \<Rightarrow> (eval_unary_op op operand, ctx1))"
| "evaluate (FunctionNode p name args) ctx =
     (case evaluate_args args [] ctx of
        (Inl e, ctx1) \<Rightarrow> (Inl e, ctx1)
      | (Inr vals, ctx1) \<Rightarrow>
          (case functions_tbl ctx1 name of
             Some f \<Rightarrow> call_impl f vals ctx1
           | None \<Rightarrow> (Inl (EvaluationError (''Unknown function: '' @ name)), ctx1)))"
| "evaluate (MatrixNode p rows) ctx = (eval_matrix_op (MatrixNode p rows) ctx, ctx)"
| "evaluate (TensorNode p dims vals) ctx = (eval_tensor_op (TensorNode p dims vals) ctx, ctx)"
| "evaluate _ ctx = (Inl (EvaluationError ''Unknown node type in evaluation''), ctx)"
| "evaluate_args [] acc ctx = (Inr acc, ctx)"
| "evaluate_args (arg # rest) acc ctx =
     (case evaluate arg ctx of
        (Inl e, ctx1) \<Rightarrow> (Inl e, ctx1)
      | (Inr v, ctx1) \<Rightarrow> evaluate_args rest (acc @ [v]) ctx1)"

text \<open>
  The lambdas of this file capture nothing and touch nothing but their arguments:
  \<open>lambda_impl\<close> is the closure of such a body.
\<close>

definition lambda_impl :: "(double list \<Rightarrow> error + double) \<Rightarrow> impl" where
  "lambda_impl body = Impl (\<lambda>args vars. (body args, []))"

text \<open>
  \<^verbatim>\<open>args[i]\<close> on the argument vector of an implementation: reading a \<^verbatim>\<open>std::vector\<close> out
  of range is undefined.
\<close>

definition arg_at :: "double list \<Rightarrow> nat \<Rightarrow> error + double" where
  "arg_at args i = (if i < length args then Inr (args ! i) else Inl UndefinedBehaviour)"

definition unary_impl :: "(double \<Rightarrow> double) \<Rightarrow> double list \<Rightarrow> error + double" where
  "unary_impl f args = (case arg_at args 0 of Inl e \<Rightarrow> Inl e | Inr x \<Rightarrow> Inr (f x))"

definition pow_impl :: "double list \<Rightarrow> error + double" where
  "pow_impl args =
     (case arg_at args 0 of
        Inl e \<Rightarrow> Inl e
      | Inr x \<Rightarrow> (case arg_at args 1 of Inl e \<Rightarrow> Inl e | Inr y \<Rightarrow> Inr (std_pow x y)))"

text \<open>The constructor \<^verbatim>\<open>EvalContext()\<close>: no variable, and seven functions stored as they are.\<close>

definition EvalContext_new :: EvalContext where
  "EvalContext_new =
     \<lparr> variables = Map.empty,
       functions_tbl =
         [''sin'' \<mapsto> lambda_impl (unary_impl std_sin),
          ''cos'' \<mapsto> lambda_impl (unary_impl std_cos),
          ''tan'' \<mapsto> lambda_impl (unary_impl std_tan),
          ''exp'' \<mapsto> lambda_impl (unary_impl std_exp),
          ''log'' \<mapsto> lambda_impl (unary_impl std_log),
          ''sqrt'' \<mapsto> lambda_impl (unary_impl std_sqrt),
          ''pow'' \<mapsto> lambda_impl pow_impl] \<rparr>"

text \<open>
  The implementations \<^verbatim>\<open>builtin::initialize\<close> registers. \<^verbatim>\<open>std::min_element\<close> and
  \<^verbatim>\<open>std::max_element\<close> return the end iterator for an empty range, and dereferencing it
  is undefined; on a range that is not empty they keep the first smallest (largest)
  element by \<^verbatim>\<open><\<close>.
\<close>

fun min_element :: "double \<Rightarrow> double list \<Rightarrow> double" where
  "min_element smallest [] = smallest"
| "min_element smallest (x # xs) = min_element (if d_less x smallest then x else smallest) xs"

fun max_element :: "double \<Rightarrow> double list \<Rightarrow> double" where
  "max_element largest [] = largest"
| "max_element largest (x # xs) = max_element (if d_less largest x then x else largest) xs"

definition abs_impl :: "double list \<Rightarrow> error + double" where
  "abs_impl = unary_impl std_abs"

definition min_impl :: "double list \<Rightarrow> error + double" where
  "min_impl args = (case args of [] \<Rightarrow> Inl UndefinedBehaviour | x # xs \<Rightarrow> Inr (min_element x xs))"

definition max_impl :: "double list \<Rightarrow> error + double" where
  "max_impl args = (case args of [] \<Rightarrow> Inl UndefinedBehaviour | x # xs \<Rightarrow> Inr (max_element x xs))"

definition accumulate :: "double list \<Rightarrow> double \<Rightarrow> double" where
  "accumulate args init = foldl d_add init args"

definition sum_impl :: "double list \<Rightarrow> error + double" where
  "sum_impl args = Inr (accumulate args (Finite 0))"

definition avg_impl :: "double list \<Rightarrow> error + double" where
  "avg_impl args = Inr (d_div (accumulate args (Finite 0)) (Finite (real (length args))))"

text \<open>
  \<^verbatim>\<open>builtin::initialize()\<close>: five registrations, each of which may throw and end the
  function, then three constants. The arity \<^verbatim>\<open>-1\<close> of the call sites is converted to
  \<^verbatim>\<open>size_t\<close>, the type of the parameter.
\<close>

definition initialize :: "EvalContext \<Rightarrow> (error + unit) \<times> EvalContext" where
  "initialize ctx =
     (case register_function ''abs'' (lambda_impl abs_impl) 1 ctx of
        (Inl e, c1) \<Rightarrow> (Inl e, c1)
      | (Inr _, c1) \<Rightarrow>
     (case register_function ''min'' (lambda_impl min_impl) (- 1) c1 of
        (Inl e, c2) \<Rightarrow> (Inl e, c2)
      | (Inr _, c2) \<Rightarrow>
     (case register_function ''max'' (lambda_impl max_impl) (- 1) c2 of
        (Inl e, c3) \<Rightarrow> (Inl e, c3)
      | (Inr _, c3) \<Rightarrow>
     (case register_function ''sum'' (lambda_impl sum_impl) (- 1) c3 of
        (Inl e, c4) \<Rightarrow> (Inl e, c4)
      | (Inr _, c4) \<Rightarrow>
     (case register_function ''avg'' (lambda_impl avg_impl) (- 1) c4 of
        (Inl e, c5) \<Rightarrow> (Inl e, c5)
      | (Inr _, c5) \<Rightarrow>
          (Inr (),
           set_variable ''inf'' PosInf
             (set_variable ''e'' (Finite (271828182845904523536 / 10 ^ 20))
               (set_variable ''pi'' (Finite (314159265358979323846 / 10 ^ 20)) c5))))))))"

text \<open>
  A closure is free of effects when it makes no call of \<^verbatim>\<open>set_variable\<close> or
  \<^verbatim>\<open>register_function\<close>, whatever its arguments and the bindings it reads; a context is
  when every entry of its function table is.
\<close>

definition effect_free :: "impl \<Rightarrow> bool" where
  "effect_free f = (\<forall>args vars. snd (run_impl f args vars) = [])"

definition effect_free_table :: "EvalContext \<Rightarrow> bool" where
  "effect_free_table ctx = (\<forall>name f. functions_tbl ctx name = Some f \<longrightarrow> effect_free f)"

section \<open>The node pool\<close>

text \<open>
  \<^verbatim>\<open>global_pool\<close>: the model keeps the number of nodes created so far, which is the
  identity of the next node. Every factory \<^verbatim>\<open>T::create\<close> makes its node through
  \<^verbatim>\<open>NodePool::create\<close>: the node gets the next identity and the pool grows by one.
\<close>

type_synonym NodePool = nat

section \<open>clone\<close>

text \<open>
  \<^verbatim>\<open>clone(node)\<close> returns the new pointer or throws, and leaves the pool with the nodes
  made until then. The arguments of \<^verbatim>\<open>BinaryOpNode::create(op, clone(left), clone(right))\<close>
  are evaluated in an order C++ leaves open; the model clones the left child first.
\<close>

fun clone :: "node \<Rightarrow> NodePool \<Rightarrow> (error + node) \<times> NodePool"
and clone_list :: "node list \<Rightarrow> node list \<Rightarrow> NodePool \<Rightarrow> (error + node list) \<times> NodePool"
and clone_rows :: "node list list \<Rightarrow> node list list \<Rightarrow> NodePool \<Rightarrow> (error + node list list) \<times> NodePool"
where
  "clone Nullptr pool = (Inr Nullptr, pool)"
| "clone (NumberNode p v) pool = (Inr (NumberNode pool v), Suc pool)"
| "clone (VariableNode p name) pool = (Inr (VariableNode pool name), Suc pool)"
| "clone (BinaryOpNode p op l r) pool =
     (case clone l pool of
        (Inl e, pool1) \<Rightarrow> (Inl e, pool1)
      | (Inr l', pool1) \<Rightarrow>
          (case clone r pool1 of
             (Inl e, pool2) \<Rightarrow> (Inl e, pool2)
           | (Inr r', pool2) \<Rightarrow> (Inr (BinaryOpNode pool2 op l' r'), Suc pool2)))"
| "clone (UnaryOpNode p op x) pool =
     (case clone x pool of
        (Inl e, pool1) \<Rightarrow> (Inl e, pool1)
      | (Inr x', pool1) \<Rightarrow> (Inr (UnaryOpNode pool1 op x'), Suc pool1))"
| "clone (FunctionNode p name args) pool =
     (case clone_list args [] pool of
        (Inl e, pool1) \<Rightarrow> (Inl e, pool1)
      | (Inr args', pool1) \<Rightarrow> (Inr (FunctionNode pool1 name args'), Suc pool1))"
| "clone (MatrixNode p elements) pool =
     (case clone_rows elements [] pool of
        (Inl e, pool1) \<Rightarrow> (Inl e, pool1)
      | (Inr elems, pool1) \<Rightarrow> (Inr (MatrixNode pool1 elems), Suc pool1))"
| "clone (TensorNode p dims vals) pool =
     (case clone_list vals [] pool of
        (Inl e, pool1) \<Rightarrow> (Inl e, pool1)
      | (Inr vals', pool1) \<Rightarrow> (Inr (TensorNode pool1 dims vals'), Suc pool1))"
| "clone _ pool = (Inl (RuntimeError ''Unknown node type in clone''), pool)"
| "clone_list [] acc pool = (Inr acc, pool)"
| "clone_list (x # xs) acc pool =
     (case clone x pool of
        (Inl e, pool1) \<Rightarrow> (Inl e, pool1)
      | (Inr x', pool1) \<Rightarrow> clone_list xs (acc @ [x']) pool1)"
| "clone_rows [] acc pool = (Inr acc, pool)"
| "clone_rows (row # rows) acc pool =
     (case clone_list row [] pool of
        (Inl e, pool1) \<Rightarrow> (Inl e, pool1)
      | (Inr new_row, pool1) \<Rightarrow> clone_rows rows (acc @ [new_row]) pool1)"

section \<open>equals\<close>

text \<open>
  \<^verbatim>\<open>equals(a, b)\<close> returns a boolean or throws. The three tests before the switch are
  those of the source: pointer equality, a null pointer, different types. In the switch
  \<open>b\<close> has the type of \<open>a\<close>, which the source uses in its \<^verbatim>\<open>static_cast\<close>; the inner
  default branches are never reached. \<open>equals_list\<close> is the loop over two vectors of the
  same size, \<open>equals_rows\<close> the loop over the rows of two matrices with the same number of
  rows.
\<close>

fun equals :: "node \<Rightarrow> node \<Rightarrow> error + bool"
and equals_list :: "node list \<Rightarrow> node list \<Rightarrow> error + bool"
and equals_rows :: "node list list \<Rightarrow> node list list \<Rightarrow> error + bool"
where
  "equals a b =
     (if address a = address b then Inr True
      else if a = Nullptr \<or> b = Nullptr then Inr False
      else if node_type a \<noteq> node_type b then Inr False
      else (case a of
          NumberNode _ va \<Rightarrow>
            (case b of NumberNode _ vb \<Rightarrow> Inr (d_eq va vb) | _ \<Rightarrow> Inr False)
        | VariableNode _ na \<Rightarrow>
            (case b of VariableNode _ nb \<Rightarrow> Inr (na = nb) | _ \<Rightarrow> Inr False)
        | BinaryOpNode _ opa la ra \<Rightarrow>
            (case b of
               BinaryOpNode _ opb lb rb \<Rightarrow>
                 if opa \<noteq> opb then Inr False
                 else (case equals la lb of
                         Inl e \<Rightarrow> Inl e
                       | Inr False \<Rightarrow> Inr False
                       | Inr True \<Rightarrow> equals ra rb)
             | _ \<Rightarrow> Inr False)
        | UnaryOpNode _ opa xa \<Rightarrow>
            (case b of
               UnaryOpNode _ opb xb \<Rightarrow> if opa \<noteq> opb then Inr False else equals xa xb
             | _ \<Rightarrow> Inr False)
        | FunctionNode _ na argsa \<Rightarrow>
            (case b of
               FunctionNode _ nb argsb \<Rightarrow>
                 if na \<noteq> nb \<or> length argsa \<noteq> length argsb then Inr False
                 else equals_list argsa argsb
             | _ \<Rightarrow> Inr False)
        | MatrixNode _ ea \<Rightarrow>
            (case b of
               MatrixNode _ eb \<Rightarrow>
                 if length ea \<noteq> length eb then Inr False else equals_rows ea eb
             | _ \<Rightarrow> Inr False)
        | TensorNode _ da valsa \<Rightarrow>
            (case b of
               TensorNode _ db valsb \<Rightarrow>
                 if da \<noteq> db \<or> length valsa \<noteq> length valsb then Inr False
                 else equals_list valsa valsb
             | _ \<Rightarrow> Inr False)
        | _ \<Rightarrow> Inl (RuntimeError ''Unknown node type in equals'')))"
| "equals_list (x # xs) (y # ys) =
     (case equals x y of
        Inl e \<Rightarrow> Inl e
      | Inr False \<Rightarrow> Inr False
      | Inr True \<Rightarrow> equals_list xs ys)"
| "equals_list _ _ = Inr True"
| "equals_rows (ra # rsa) (rb # rsb) =
     (if length ra \<noteq> length rb then Inr False
      else (case equals_list ra rb of
              Inl e \<Rightarrow> Inl e
            | Inr False \<Rightarrow> Inr False
            | Inr True \<Rightarrow> equals_rows rsa rsb))"
| "equals_rows _ _ = Inr True"

declare equals.simps [simp del]

section \<open>hash\<close>

text \<open>
  The hash functions of the standard library are parameters: \<^verbatim>\<open>std::hash<double>\<close>,
  \<^verbatim>\<open>std::hash<std::string>\<close> and \<^verbatim>\<open>std::hash<size_t>\<close>. A \<^verbatim>\<open>size_t\<close> is a 64-bit word:
  \<open>+\<close> and \<open>*\<close> wrap around.
\<close>

record StdHash =
  hash_double :: "double \<Rightarrow> 64 word"
  hash_string :: "string \<Rightarrow> 64 word"
  hash_size_t :: "64 word \<Rightarrow> 64 word"

definition prime :: "64 word" where
  "prime = 0x100000001B3"

text \<open>\<^verbatim>\<open>static_cast<size_t>\<close> of the three enumerations: the position of the enumerator.\<close>

fun NodeType_index :: "NodeType \<Rightarrow> 64 word" where
  "NodeType_index NUMBER = 0"
| "NodeType_index BOOLEAN = 1"
| "NodeType_index STRING = 2"
| "NodeType_index VARIABLE = 3"
| "NodeType_index BINARY_OP = 4"
| "NodeType_index UNARY_OP = 5"
| "NodeType_index FUNCTION = 6"
| "NodeType_index MATRIX = 7"
| "NodeType_index TENSOR = 8"
| "NodeType_index ASSIGNMENT = 9"
| "NodeType_index BLOCK = 10"
| "NodeType_index IF = 11"
| "NodeType_index WHILE = 12"
| "NodeType_index FOR = 13"
| "NodeType_index RETURN = 14"

fun BinaryOp_index :: "BinaryOp \<Rightarrow> 64 word" where
  "BinaryOp_index ADD = 0"
| "BinaryOp_index SUB = 1"
| "BinaryOp_index MUL = 2"
| "BinaryOp_index DIV = 3"
| "BinaryOp_index MOD = 4"
| "BinaryOp_index POW = 5"
| "BinaryOp_index EQ = 6"
| "BinaryOp_index NEQ = 7"
| "BinaryOp_index LT = 8"
| "BinaryOp_index LEQ = 9"
| "BinaryOp_index GT = 10"
| "BinaryOp_index GEQ = 11"
| "BinaryOp_index AND_op = 12"
| "BinaryOp_index OR_op = 13"

fun UnaryOp_index :: "UnaryOp \<Rightarrow> 64 word" where
  "UnaryOp_index NEGATE = 0"
| "UnaryOp_index NOT_op = 1"
| "UnaryOp_index SIN = 2"
| "UnaryOp_index COS = 3"
| "UnaryOp_index TAN = 4"
| "UnaryOp_index ASIN = 5"
| "UnaryOp_index ACOS = 6"
| "UnaryOp_index ATAN = 7"
| "UnaryOp_index EXP = 8"
| "UnaryOp_index LOG = 9"
| "UnaryOp_index SQRT = 10"
| "UnaryOp_index TRANSPOSE = 11"
| "UnaryOp_index DETERMINANT = 12"
| "UnaryOp_index INVERSE = 13"

text \<open>
  \<^verbatim>\<open>hash(node)\<close> returns a \<^verbatim>\<open>size_t\<close> or throws. \<open>hash_list\<close> is the loop
  \<^verbatim>\<open>for (auto* x : xs) h ^= (hash(x) * prime)\<close> from the value of \<open>h\<close> before it, and
  \<open>hash_rows\<close> the same loop over the rows of a matrix.
\<close>

fun hash :: "StdHash \<Rightarrow> node \<Rightarrow> error + 64 word"
and hash_list :: "StdHash \<Rightarrow> node list \<Rightarrow> 64 word \<Rightarrow> error + 64 word"
and hash_rows :: "StdHash \<Rightarrow> node list list \<Rightarrow> 64 word \<Rightarrow> error + 64 word"
where
  "hash H Nullptr = Inr 0"
| "hash H (NumberNode p v) = Inr (NodeType_index NUMBER XOR (hash_double H v + prime))"
| "hash H (VariableNode p name) = Inr (NodeType_index VARIABLE XOR (hash_string H name + prime))"
| "hash H (BinaryOpNode p op l r) =
     (case hash H l of
        Inl e \<Rightarrow> Inl e
      | Inr hl \<Rightarrow>
          (case hash H r of
             Inl e \<Rightarrow> Inl e
           | Inr hr \<Rightarrow>
               Inr (((NodeType_index BINARY_OP XOR (BinaryOp_index op + prime)) XOR (hl * prime))
                      XOR (hr * prime))))"
| "hash H (UnaryOpNode p op x) =
     (case hash H x of
        Inl e \<Rightarrow> Inl e
      | Inr hx \<Rightarrow> Inr ((NodeType_index UNARY_OP XOR (UnaryOp_index op + prime)) XOR (hx * prime)))"
| "hash H (FunctionNode p name args) =
     hash_list H args (NodeType_index FUNCTION XOR (hash_string H name + prime))"
| "hash H (MatrixNode p elements) = hash_rows H elements (NodeType_index MATRIX)"
| "hash H (TensorNode p dims vals) =
     hash_list H vals
       (foldl (\<lambda>h dim. h XOR (hash_size_t H dim + prime)) (NodeType_index TENSOR) dims)"
| "hash H _ = Inl (RuntimeError ''Unknown node type in hash'')"
| "hash_list H [] h = Inr h"
| "hash_list H (x # xs) h =
     (case hash H x of Inl e \<Rightarrow> Inl e | Inr hx \<Rightarrow> hash_list H xs (h XOR (hx * prime)))"
| "hash_rows H [] h = Inr h"
| "hash_rows H (row # rows) h =
     (case hash_list H row h of Inl e \<Rightarrow> Inl e | Inr h' \<Rightarrow> hash_rows H rows h')"

section \<open>traverse\<close>

text \<open>
  The explicit stack is a list with its top first. \<open>push_if\<close> is
  \<^verbatim>\<open>if (x) stack.push(x)\<close>, \<open>push_reversed\<close> the loop from \<^verbatim>\<open>rbegin()\<close> to \<^verbatim>\<open>rend()\<close>
  over a vector of children, and \<open>push_children\<close> the switch on the type of the node
  just visited.
\<close>

definition push_if :: "node \<Rightarrow> node list \<Rightarrow> node list" where
  "push_if x stack = (if x \<noteq> Nullptr then x # stack else stack)"

definition push_reversed :: "node list \<Rightarrow> node list \<Rightarrow> node list" where
  "push_reversed xs stack = foldl (\<lambda>st x. push_if x st) stack (rev xs)"

fun push_children :: "node \<Rightarrow> node list \<Rightarrow> node list" where
  "push_children (BinaryOpNode p op l r) stack = push_if l (push_if r stack)"
| "push_children (UnaryOpNode p op x) stack = push_if x stack"
| "push_children (FunctionNode p name args) stack = push_reversed args stack"
| "push_children (MatrixNode p elements) stack =
     foldl (\<lambda>st row. push_reversed row st) stack (rev elements)"
| "push_children (TensorNode p dims vals) stack = push_reversed vals stack"
| "push_children _ stack = stack"

lemma push_reversed_filter:
  "push_reversed xs stack = filter (\<lambda>x. x \<noteq> Nullptr) xs @ stack"
  by (induction xs) (simp_all add: push_reversed_def push_if_def)

lemma push_rows_filter:
  "foldl (\<lambda>st row. push_reversed row st) stack (rev rows)
     = filter (\<lambda>x. x \<noteq> Nullptr) (concat rows) @ stack"
  by (induction rows) (simp_all add: push_reversed_filter)

text \<open>The measure of the loop: every node on the stack counts twice its size plus one.\<close>

definition stack_weight :: "node list \<Rightarrow> nat" where
  "stack_weight stack = sum_list (map (\<lambda>x. Suc (2 * size x)) stack)"

lemma stack_weight_simps [simp]:
  "stack_weight [] = 0"
  "stack_weight (x # xs) = Suc (2 * size x) + stack_weight xs"
  "stack_weight (xs @ ys) = stack_weight xs + stack_weight ys"
  by (simp_all add: stack_weight_def)

lemma stack_weight_filter:
  "stack_weight (filter P xs) \<le> 2 * size_list size xs"
  by (induction xs) auto

lemma stack_weight_filter_concat:
  "stack_weight (filter P (concat rows)) \<le> 2 * size_list (size_list size) rows"
proof (induction rows)
  case Nil
  then show ?case by simp
next
  case (Cons row rows)
  have "stack_weight (filter P row) \<le> 2 * size_list size row"
    by (rule stack_weight_filter)
  with Cons show ?case by simp
qed

lemma push_children_weight:
  "current \<noteq> Nullptr \<Longrightarrow>
     stack_weight (push_children current stack) < stack_weight (current # stack)"
proof (cases current)
  case (FunctionNode p name args)
  have "stack_weight (filter (\<lambda>x. x \<noteq> Nullptr) args) \<le> 2 * size_list size args"
    by (rule stack_weight_filter)
  with FunctionNode show ?thesis by (simp add: push_reversed_filter)
next
  case (MatrixNode p rows)
  have "stack_weight (filter (\<lambda>x. x \<noteq> Nullptr) (concat rows)) \<le> 2 * size_list (size_list size) rows"
    by (rule stack_weight_filter_concat)
  with MatrixNode show ?thesis by (simp add: push_rows_filter)
next
  case (TensorNode p dims vals)
  have "stack_weight (filter (\<lambda>x. x \<noteq> Nullptr) vals) \<le> 2 * size_list size vals"
    by (rule stack_weight_filter)
  with TensorNode show ?thesis by (simp add: push_reversed_filter)
qed (simp_all add: push_if_def)

text \<open>
  The loop \<^verbatim>\<open>while (!stack.empty())\<close>. The visitor is a function on a state of the
  caller's. A null pointer on the stack would be dereferenced, which is undefined; the
  source never pushes one.
\<close>

function traverse_loop :: "node list \<Rightarrow> (node \<Rightarrow> 's \<Rightarrow> 's) \<Rightarrow> 's \<Rightarrow> error + 's" where
  "traverse_loop [] visitor s = Inr s"
| "traverse_loop (current # stack) visitor s =
     (if current = Nullptr then Inl UndefinedBehaviour
      else traverse_loop (push_children current stack) visitor (visitor current s))"
  by pat_completeness auto
termination
  by (relation "measure (\<lambda>(stack, visitor, s). stack_weight stack)")
     (simp_all add: push_children_weight del: stack_weight_simps)

definition traverse :: "node \<Rightarrow> (node \<Rightarrow> 's \<Rightarrow> 's) \<Rightarrow> 's \<Rightarrow> error + 's" where
  "traverse n visitor s = (if n = Nullptr then Inr s else traverse_loop [n] visitor s)"

section \<open>simplify\<close>

text \<open>
  The two inner switches of \<^verbatim>\<open>simplify\<close>: \<^verbatim>\<open>result\<close> starts as 0 and the default
  branch leaves it so.
\<close>

fun fold_binary :: "BinaryOp \<Rightarrow> double \<Rightarrow> double \<Rightarrow> double" where
  "fold_binary ADD lval rval = d_add lval rval"
| "fold_binary SUB lval rval = d_sub lval rval"
| "fold_binary MUL lval rval = d_mul lval rval"
| "fold_binary DIV lval rval = d_div lval rval"
| "fold_binary POW lval rval = std_pow lval rval"
| "fold_binary _ lval rval = Finite 0"

fun fold_unary :: "UnaryOp \<Rightarrow> double \<Rightarrow> double" where
  "fold_unary NEGATE val = d_neg val"
| "fold_unary SIN val = std_sin val"
| "fold_unary COS val = std_cos val"
| "fold_unary TAN val = std_tan val"
| "fold_unary EXP val = std_exp val"
| "fold_unary LOG val = std_log val"
| "fold_unary SQRT val = std_sqrt val"
| "fold_unary _ val = Finite 0"

text \<open>
  \<^verbatim>\<open>simplify(node)\<close>. \<^verbatim>\<open>left->type\<close> and \<^verbatim>\<open>operand->type\<close> dereference the simplified
  child, which is null when the child is; \<^verbatim>\<open>right->type\<close> is read only when the left
  child is a number.
\<close>

fun simplify :: "node \<Rightarrow> NodePool \<Rightarrow> (error + node) \<times> NodePool" where
  "simplify Nullptr pool = (Inr Nullptr, pool)"
| "simplify (BinaryOpNode p op l r) pool =
     (case simplify l pool of
        (Inl e, pool1) \<Rightarrow> (Inl e, pool1)
      | (Inr left, pool1) \<Rightarrow>
          (case simplify r pool1 of
             (Inl e, pool2) \<Rightarrow> (Inl e, pool2)
           | (Inr right, pool2) \<Rightarrow>
               (case left of
                  Nullptr \<Rightarrow> (Inl UndefinedBehaviour, pool2)
                | NumberNode _ lval \<Rightarrow>
                    (case right of
                       Nullptr \<Rightarrow> (Inl UndefinedBehaviour, pool2)
                     | NumberNode _ rval \<Rightarrow>
                         (Inr (NumberNode pool2 (fold_binary op lval rval)), Suc pool2)
                     | _ \<Rightarrow> (Inr (BinaryOpNode pool2 op left right), Suc pool2))
                | _ \<Rightarrow> (Inr (BinaryOpNode pool2 op left right), Suc pool2))))"
| "simplify (UnaryOpNode p op x) pool =
     (case simplify x pool of
        (Inl e, pool1) \<Rightarrow> (Inl e, pool1)
      | (Inr operand, pool1) \<Rightarrow>
          (case operand of
             Nullptr \<Rightarrow> (Inl UndefinedBehaviour, pool1)
           | NumberNode _ val \<Rightarrow> (Inr (NumberNode pool1 (fold_unary op val)), Suc pool1)
           | _ \<Rightarrow> (Inr (UnaryOpNode pool1 op operand), Suc pool1)))"
| "simplify n pool = clone n pool"

text \<open>The names the constructor \<^verbatim>\<open>EvalContext()\<close> stores.\<close>

definition builtin_names :: "string list" where
  "builtin_names = [''sin'', ''cos'', ''tan'', ''exp'', ''log'', ''sqrt'', ''pow'']"

section \<open>Notions of the specification\<close>

text \<open>
  The pre-order of a tree as the specification describes it: the node, then the nodes of
  each child from left to right, for every variant. A null child holds no node.
\<close>

fun preorder :: "node \<Rightarrow> node list" where
  "preorder Nullptr = []"
| "preorder (NumberNode p v) = [NumberNode p v]"
| "preorder (BooleanNode p v) = [BooleanNode p v]"
| "preorder (StringNode p v) = [StringNode p v]"
| "preorder (VariableNode p name) = [VariableNode p name]"
| "preorder (BinaryOpNode p op l r) = BinaryOpNode p op l r # preorder l @ preorder r"
| "preorder (UnaryOpNode p op x) = UnaryOpNode p op x # preorder x"
| "preorder (FunctionNode p name args) = FunctionNode p name args # concat (map preorder args)"
| "preorder (MatrixNode p elements) =
     MatrixNode p elements # concat (map (\<lambda>row. concat (map preorder row)) elements)"
| "preorder (TensorNode p dims vals) = TensorNode p dims vals # concat (map preorder vals)"
| "preorder (AssignmentNode p name v) = AssignmentNode p name v # preorder v"
| "preorder (BlockNode p statements) = BlockNode p statements # concat (map preorder statements)"
| "preorder (IfNode p c t e) = IfNode p c t e # preorder c @ preorder t @ preorder e"
| "preorder (WhileNode p c b) = WhileNode p c b # preorder c @ preorder b"
| "preorder (ForNode p i c inc b) =
     ForNode p i c inc b # preorder i @ preorder c @ preorder inc @ preorder b"
| "preorder (ReturnNode p v) = ReturnNode p v # preorder v"

text \<open>
  The statement variants. A tree is \<open>traversable\<close> when none of its nodes is one.
\<close>

fun is_statement :: "node \<Rightarrow> bool" where
  "is_statement (AssignmentNode _ _ _) = True"
| "is_statement (BlockNode _ _) = True"
| "is_statement (IfNode _ _ _ _) = True"
| "is_statement (WhileNode _ _ _) = True"
| "is_statement (ForNode _ _ _ _ _) = True"
| "is_statement (ReturnNode _ _) = True"
| "is_statement _ = False"

definition traversable :: "node \<Rightarrow> bool" where
  "traversable n = list_all (\<lambda>x. \<not> is_statement x) (preorder n)"

text \<open>
  An identity denotes one object: whenever a node of \<open>a\<close> and a node of \<open>b\<close> carry the
  same identity, they are the same node. Two trees that share no object satisfy it, and
  so do a tree and itself.
\<close>

definition consistent_in :: "node list \<Rightarrow> node list \<Rightarrow> bool" where
  "consistent_in xs ys = (\<forall>x\<in>set xs. \<forall>y\<in>set ys. address x = address y \<longrightarrow> x = y)"

definition consistent :: "node \<Rightarrow> node \<Rightarrow> bool" where
  "consistent a b = consistent_in (preorder a) (preorder b)"

text \<open>
  The structure of a tree: the tree with every identity forgotten. Two pointers with the
  same structure point to trees with the same variant tags, operators, names, values and
  children.
\<close>

fun structure_of :: "node \<Rightarrow> node" where
  "structure_of Nullptr = Nullptr"
| "structure_of (NumberNode p v) = NumberNode 0 v"
| "structure_of (BooleanNode p v) = BooleanNode 0 v"
| "structure_of (StringNode p v) = StringNode 0 v"
| "structure_of (VariableNode p name) = VariableNode 0 name"
| "structure_of (BinaryOpNode p op l r) = BinaryOpNode 0 op (structure_of l) (structure_of r)"
| "structure_of (UnaryOpNode p op x) = UnaryOpNode 0 op (structure_of x)"
| "structure_of (FunctionNode p name args) = FunctionNode 0 name (map structure_of args)"
| "structure_of (MatrixNode p elements) = MatrixNode 0 (map (map structure_of) elements)"
| "structure_of (TensorNode p dims vals) = TensorNode 0 dims (map structure_of vals)"
| "structure_of (AssignmentNode p name v) = AssignmentNode 0 name (structure_of v)"
| "structure_of (BlockNode p statements) = BlockNode 0 (map structure_of statements)"
| "structure_of (IfNode p c t e) = IfNode 0 (structure_of c) (structure_of t) (structure_of e)"
| "structure_of (WhileNode p c b) = WhileNode 0 (structure_of c) (structure_of b)"
| "structure_of (ForNode p i c inc b) =
     ForNode 0 (structure_of i) (structure_of c) (structure_of inc) (structure_of b)"
| "structure_of (ReturnNode p v) = ReturnNode 0 (structure_of v)"

text \<open>The identities of the objects of a tree.\<close>

definition addresses :: "node \<Rightarrow> nat set" where
  "addresses n = {p. \<exists>x\<in>set (preorder n). address x = Some p}"

text \<open>
  The variants \<open>clone\<close>, \<open>equals\<close> and \<open>hash\<close> have a case for. A tree is \<open>cloneable\<close>
  when all its nodes are of these variants, and \<open>nan_free\<close> when no Number node of it
  holds NaN.
\<close>

fun is_handled :: "node \<Rightarrow> bool" where
  "is_handled (NumberNode _ _) = True"
| "is_handled (VariableNode _ _) = True"
| "is_handled (BinaryOpNode _ _ _ _) = True"
| "is_handled (UnaryOpNode _ _ _) = True"
| "is_handled (FunctionNode _ _ _) = True"
| "is_handled (MatrixNode _ _) = True"
| "is_handled (TensorNode _ _ _) = True"
| "is_handled _ = False"

definition cloneable :: "node \<Rightarrow> bool" where
  "cloneable n = list_all is_handled (preorder n)"

fun holds_nan :: "node \<Rightarrow> bool" where
  "holds_nan (NumberNode _ v) = (v = NaN)"
| "holds_nan _ = False"

definition nan_free :: "node \<Rightarrow> bool" where
  "nan_free n = list_all (\<lambda>x. \<not> holds_nan x) (preorder n)"

section \<open>Tokens and the lexer\<close>

text \<open>
  The token types \<^verbatim>\<open>lex.cpp\<close> and the parser name (the header that declares the
  enumeration is not part of the sources). A token carries its type, its text, the value
  of a numeric literal, and its line and column.
\<close>

datatype TokenType =
    T_EOF | T_NUMBER | T_IDENTIFIER | T_STRING
  | T_LET | T_FN | T_IF | T_ELSE | T_FOR | T_WHILE | T_RETURN | T_TRUE | T_FALSE
  | T_INF | T_NAN | T_PI | T_E
  | T_PLUS | T_MINUS | T_STAR | T_SLASH | T_PERCENT | T_CARET | T_EQUAL | T_LESS | T_GREATER
  | T_BANG | T_LPAREN | T_RPAREN | T_LBRACKET | T_RBRACKET | T_LBRACE | T_RBRACE | T_COMMA
  | T_DOT | T_COLON | T_SEMI
  | T_EQEQ | T_NEQ | T_LEQ | T_GEQ | T_ARROW | T_POW

record Token =
  tok_type :: TokenType
  tok_text :: string
  tok_value :: double
  tok_line :: nat
  tok_column :: nat

text \<open>
  The parser reads its tokens through \<^verbatim>\<open>Lexer::next()\<close>. The lexer is modelled by what it
  returns: the tokens it has still to give, and the end-of-input token it gives from then
  on.
\<close>

record Lexer =
  pending :: "Token list"
  eof_token :: Token

definition Lexer_next :: "Lexer \<Rightarrow> Token \<times> Lexer" where
  "Lexer_next lx =
     (case pending lx of
        [] \<Rightarrow> (eof_token lx, lx)
      | t # ts \<Rightarrow> (t, lx\<lparr>pending := ts\<rparr>))"

section \<open>The parser\<close>

type_synonym Precedence = int

definition PREC_NONE :: Precedence where "PREC_NONE = 0"
definition PREC_ASSIGNMENT :: Precedence where "PREC_ASSIGNMENT = 1"
definition PREC_TERNARY :: Precedence where "PREC_TERNARY = 2"
definition PREC_OR :: Precedence where "PREC_OR = 3"
definition PREC_AND :: Precedence where "PREC_AND = 4"
definition PREC_EQUALITY :: Precedence where "PREC_EQUALITY = 5"
definition PREC_COMPARISON :: Precedence where "PREC_COMPARISON = 6"
definition PREC_TERM :: Precedence where "PREC_TERM = 7"
definition PREC_FACTOR :: Precedence where "PREC_FACTOR = 8"
definition PREC_UNARY :: Precedence where "PREC_UNARY = 9"
definition PREC_POWER :: Precedence where "PREC_POWER = 10"
definition PREC_CALL :: Precedence where "PREC_CALL = 11"
definition PREC_PRIMARY :: Precedence where "PREC_PRIMARY = 12"

text \<open>
  A rule of the table: the handlers are member functions of the parser, named here by a
  tag; \<open>None\<close> is \<^verbatim>\<open>nullptr\<close>.
\<close>

datatype PrefixHandler =
    H_number | H_variable | H_string | H_grouping | H_matrix | H_unary | H_boolean | H_constant

datatype InfixHandler = H_call | H_binary | H_assignment

record ParseRule =
  prefix_handler :: "PrefixHandler option"
  infix_handler :: "InfixHandler option"
  precedence :: Precedence

definition rule :: "PrefixHandler option \<Rightarrow> InfixHandler option \<Rightarrow> Precedence \<Rightarrow> ParseRule" where
  "rule p i q = \<lparr>prefix_handler = p, infix_handler = i, precedence = q\<rparr>"

text \<open>\<^verbatim>\<open>get_rule\<close> on the table \<^verbatim>\<open>setup_rules\<close> fills.\<close>

fun get_rule :: "TokenType \<Rightarrow> ParseRule" where
  "get_rule T_NUMBER = rule (Some H_number) None PREC_NONE"
| "get_rule T_IDENTIFIER = rule (Some H_variable) (Some H_call) PREC_CALL"
| "get_rule T_STRING = rule (Some H_string) None PREC_NONE"
| "get_rule T_LPAREN = rule (Some H_grouping) (Some H_call) PREC_CALL"
| "get_rule T_LBRACKET = rule (Some H_matrix) None PREC_NONE"
| "get_rule T_MINUS = rule (Some H_unary) (Some H_binary) PREC_TERM"
| "get_rule T_PLUS = rule None (Some H_binary) PREC_TERM"
| "get_rule T_STAR = rule None (Some H_binary) PREC_FACTOR"
| "get_rule T_SLASH = rule None (Some H_binary) PREC_FACTOR"
| "get_rule T_CARET = rule None (Some H_binary) PREC_POWER"
| "get_rule T_EQUAL = rule None (Some H_assignment) PREC_ASSIGNMENT"
| "get_rule T_EQEQ = rule None (Some H_binary) PREC_EQUALITY"
| "get_rule T_NEQ = rule None (Some H_binary) PREC_EQUALITY"
| "get_rule T_LESS = rule None (Some H_binary) PREC_COMPARISON"
| "get_rule T_LEQ = rule None (Some H_binary) PREC_COMPARISON"
| "get_rule T_GREATER = rule None (Some H_binary) PREC_COMPARISON"
| "get_rule T_GEQ = rule None (Some H_binary) PREC_COMPARISON"
| "get_rule T_BANG = rule (Some H_unary) None PREC_NONE"
| "get_rule T_TRUE = rule (Some H_boolean) None PREC_NONE"
| "get_rule T_FALSE = rule (Some H_boolean) None PREC_NONE"
| "get_rule T_PI = rule (Some H_constant) None PREC_NONE"
| "get_rule T_E = rule (Some H_constant) None PREC_NONE"
| "get_rule T_INF = rule (Some H_constant) None PREC_NONE"
| "get_rule T_NAN = rule (Some H_constant) None PREC_NONE"
| "get_rule _ = rule None None PREC_NONE"

text \<open>
  The state of a parse: the fields of the parser and the node pool the factories take
  their nodes from.
\<close>

record Parser =
  the_lexer :: Lexer
  current_token :: Token
  next_token :: Token
  node_pool :: NodePool

text \<open>The constructor \<^verbatim>\<open>Parser(lexer)\<close> reads two tokens.\<close>

definition Parser_new :: "Lexer \<Rightarrow> NodePool \<Rightarrow> Parser" where
  "Parser_new lx p =
     (let (t1, lx1) = Lexer_next lx; (t2, lx2) = Lexer_next lx1
      in \<lparr>the_lexer = lx2, current_token = t1, next_token = t2, node_pool = p\<rparr>)"

definition advance :: "Parser \<Rightarrow> Parser" where
  "advance ps =
     (let (t, lx) = Lexer_next (the_lexer ps)
      in ps\<lparr>current_token := next_token ps, next_token := t, the_lexer := lx\<rparr>)"

definition throw_error :: "string \<Rightarrow> Parser \<Rightarrow> error" where
  "throw_error message ps = ParseError message (tok_line (current_token ps)) (tok_column (current_token ps))"

definition consume :: "TokenType \<Rightarrow> string \<Rightarrow> Parser \<Rightarrow> error + Parser" where
  "consume ty message ps =
     (if tok_type (current_token ps) = ty then Inr (advance ps) else Inl (throw_error message ps))"

definition match :: "TokenType \<Rightarrow> Parser \<Rightarrow> bool \<times> Parser" where
  "match ty ps = (if tok_type (current_token ps) = ty then (True, advance ps) else (False, ps))"

text \<open>
  The factories. Those of \<^verbatim>\<open>NumberNode\<close>, \<^verbatim>\<open>VariableNode\<close>, \<^verbatim>\<open>BinaryOpNode\<close>,
  \<^verbatim>\<open>UnaryOpNode\<close>, \<^verbatim>\<open>FunctionNode\<close> and \<^verbatim>\<open>MatrixNode\<close> are in \<^verbatim>\<open>ast.cpp\<close>; those of
  \<^verbatim>\<open>StringNode\<close>, \<^verbatim>\<open>BooleanNode\<close> and \<^verbatim>\<open>AssignmentNode\<close> are declared in \<^verbatim>\<open>ast.h\<close> only
  and are taken to make their node in the same way.
\<close>

definition create :: "(nat \<Rightarrow> node) \<Rightarrow> Parser \<Rightarrow> node \<times> Parser" where
  "create mk ps = (mk (node_pool ps), ps\<lparr>node_pool := Suc (node_pool ps)\<rparr>)"

text \<open>The handlers that do not recurse.\<close>

definition number :: "Parser \<Rightarrow> error + node \<times> Parser" where
  "number ps = (let v = tok_value (current_token ps) in Inr (create (\<lambda>p. NumberNode p v) (advance ps)))"

definition string_lit :: "Parser \<Rightarrow> error + node \<times> Parser" where
  "string_lit ps = (let v = tok_text (current_token ps) in Inr (create (\<lambda>p. StringNode p v) (advance ps)))"

definition boolean :: "Parser \<Rightarrow> error + node \<times> Parser" where
  "boolean ps =
     (let v = (tok_type (current_token ps) = T_TRUE) in Inr (create (\<lambda>p. BooleanNode p v) (advance ps)))"

definition constant_lit :: "Parser \<Rightarrow> error + node \<times> Parser" where
  "constant_lit ps =
     (case tok_type (current_token ps) of
        T_PI \<Rightarrow> Inr (create (\<lambda>p. NumberNode p (Finite (314159265358979323846 / 10 ^ 20))) (advance ps))
      | T_E \<Rightarrow> Inr (create (\<lambda>p. NumberNode p (Finite (271828182845904523536 / 10 ^ 20))) (advance ps))
      | T_INF \<Rightarrow> Inr (create (\<lambda>p. NumberNode p PosInf) (advance ps))
      | T_NAN \<Rightarrow> Inr (create (\<lambda>p. NumberNode p NaN) (advance ps))
      | _ \<Rightarrow> Inl (throw_error ''Unknown constant'' ps))"

definition variable :: "Parser \<Rightarrow> error + node \<times> Parser" where
  "variable ps = (let name = tok_text (current_token ps) in Inr (create (\<lambda>p. VariableNode p name) (advance ps)))"

text \<open>
  The recursive part of the parser. Every function takes a bound on the depth of the calls
  still allowed and returns \<open>None\<close> when it is used up; otherwise it returns the
  \<^verbatim>\<open>ParseError\<close> thrown, or the node with the state of the parser after it.
  \<open>infix_loop\<close> is the \<^verbatim>\<open>while\<close> loop of \<^verbatim>\<open>parse_expression\<close>, \<open>expression_list\<close> the loop
  \<^verbatim>\<open>do { v.push_back(parse_expression()); } while (match(COMMA))\<close> of \<^verbatim>\<open>matrix\<close> and of
  \<^verbatim>\<open>call\<close>, and \<open>matrix_rows\<close> the outer loop of \<^verbatim>\<open>matrix\<close>. A rule without infix handler
  holds an empty \<^verbatim>\<open>std::function\<close>, and calling it throws \<^verbatim>\<open>std::bad_function_call\<close>.
\<close>

type_synonym 'a parse_result = "(error + 'a \<times> Parser) option"

definition pbind :: "'a parse_result \<Rightarrow> ('a \<Rightarrow> Parser \<Rightarrow> 'b parse_result) \<Rightarrow> 'b parse_result" where
  "pbind m f =
     (case m of
        None \<Rightarrow> None
      | Some (Inl e) \<Rightarrow> Some (Inl e)
      | Some (Inr (x, ps)) \<Rightarrow> f x ps)"

definition returns :: "'a \<times> Parser \<Rightarrow> 'a parse_result" where
  "returns r = Some (Inr r)"

definition throws :: "error \<Rightarrow> 'a parse_result" where
  "throws e = Some (Inl e)"

fun node_name :: "node \<Rightarrow> string" where
  "node_name (VariableNode p name) = name"
| "node_name _ = []"

text \<open>The switches at the end of \<^verbatim>\<open>unary\<close> and \<^verbatim>\<open>binary\<close>, on the type of the operator token.\<close>

definition unary_node :: "TokenType \<Rightarrow> node \<Rightarrow> Parser \<Rightarrow> node parse_result" where
  "unary_node ty right ps =
     (case ty of
        T_MINUS \<Rightarrow> returns (create (\<lambda>p. UnaryOpNode p NEGATE right) ps)
      | T_BANG \<Rightarrow> returns (create (\<lambda>p. UnaryOpNode p NOT_op right) ps)
      | _ \<Rightarrow> throws (throw_error ''Invalid unary operator'' ps))"

definition binary_node :: "TokenType \<Rightarrow> node \<Rightarrow> node \<Rightarrow> Parser \<Rightarrow> node parse_result" where
  "binary_node ty left right ps =
     (case ty of
        T_PLUS \<Rightarrow> returns (create (\<lambda>p. BinaryOpNode p ADD left right) ps)
      | T_MINUS \<Rightarrow> returns (create (\<lambda>p. BinaryOpNode p SUB left right) ps)
      | T_STAR \<Rightarrow> returns (create (\<lambda>p. BinaryOpNode p MUL left right) ps)
      | T_SLASH \<Rightarrow> returns (create (\<lambda>p. BinaryOpNode p DIV left right) ps)
      | T_CARET \<Rightarrow> returns (create (\<lambda>p. BinaryOpNode p POW left right) ps)
      | T_EQEQ \<Rightarrow> returns (create (\<lambda>p. BinaryOpNode p EQ left right) ps)
      | T_NEQ \<Rightarrow> returns (create (\<lambda>p. BinaryOpNode p NEQ left right) ps)
      | T_LESS \<Rightarrow> returns (create (\<lambda>p. BinaryOpNode p LT left right) ps)
      | T_LEQ \<Rightarrow> returns (create (\<lambda>p. BinaryOpNode p LEQ left right) ps)
      | T_GREATER \<Rightarrow> returns (create (\<lambda>p. BinaryOpNode p GT left right) ps)
      | T_GEQ \<Rightarrow> returns (create (\<lambda>p. BinaryOpNode p GEQ left right) ps)
      | _ \<Rightarrow> throws (throw_error ''Invalid binary operator'' ps))"

text \<open>What follows a successful \<^verbatim>\<open>consume\<close>, or its error.\<close>

definition after_consume ::
  "TokenType \<Rightarrow> string \<Rightarrow> Parser \<Rightarrow> (Parser \<Rightarrow> 'a parse_result) \<Rightarrow> 'a parse_result" where
  "after_consume ty message ps f =
     (case consume ty message ps of Inl e \<Rightarrow> throws e | Inr ps1 \<Rightarrow> f ps1)"

text \<open>
  The functions of the parser call each other. The model ties them together by the depth
  of calls still allowed: \<open>ParserFns\<close> holds the twelve functions at one depth, each body
  below is written over the functions one level lower, and \<open>parser_fns\<close> builds the levels.
\<close>

record ParserFns =
  parse_expression_fn :: "Precedence \<Rightarrow> Parser \<Rightarrow> node parse_result"
  infix_loop_fn :: "Precedence \<Rightarrow> node \<Rightarrow> Parser \<Rightarrow> node parse_result"
  parse_prefix_fn :: "Parser \<Rightarrow> node parse_result"
  parse_infix_fn :: "node \<Rightarrow> Parser \<Rightarrow> node parse_result"
  grouping_fn :: "Parser \<Rightarrow> node parse_result"
  matrix_fn :: "Parser \<Rightarrow> node parse_result"
  matrix_rows_fn :: "node list list \<Rightarrow> Parser \<Rightarrow> (node list list) parse_result"
  expression_list_fn :: "node list \<Rightarrow> Parser \<Rightarrow> (node list) parse_result"
  unary_fn :: "Parser \<Rightarrow> node parse_result"
  binary_fn :: "node \<Rightarrow> Parser \<Rightarrow> node parse_result"
  assignment_fn :: "node \<Rightarrow> Parser \<Rightarrow> node parse_result"
  call_fn :: "node \<Rightarrow> Parser \<Rightarrow> node parse_result"

definition parse_expression_body :: "ParserFns \<Rightarrow> Precedence \<Rightarrow> Parser \<Rightarrow> node parse_result" where
  "parse_expression_body r prec ps =
     pbind (parse_prefix_fn r ps) (\<lambda>expr ps1. infix_loop_fn r prec expr ps1)"

definition infix_loop_body :: "ParserFns \<Rightarrow> Precedence \<Rightarrow> node \<Rightarrow> Parser \<Rightarrow> node parse_result" where
  "infix_loop_body r prec expr ps =
     (if prec \<le> precedence (get_rule (tok_type (current_token ps)))
      then pbind (parse_infix_fn r expr ps) (\<lambda>expr1 ps1. infix_loop_fn r prec expr1 ps1)
      else returns (expr, ps))"

definition parse_prefix_body :: "ParserFns \<Rightarrow> Parser \<Rightarrow> node parse_result" where
  "parse_prefix_body r ps =
     (case prefix_handler (get_rule (tok_type (current_token ps))) of
        None \<Rightarrow> throws (throw_error ''Expected expression'' ps)
      | Some H_number \<Rightarrow> Some (number ps)
      | Some H_variable \<Rightarrow> Some (variable ps)
      | Some H_string \<Rightarrow> Some (string_lit ps)
      | Some H_boolean \<Rightarrow> Some (boolean ps)
      | Some H_constant \<Rightarrow> Some (constant_lit ps)
      | Some H_grouping \<Rightarrow> grouping_fn r ps
      | Some H_matrix \<Rightarrow> matrix_fn r ps
      | Some H_unary \<Rightarrow> unary_fn r ps)"

definition parse_infix_body :: "ParserFns \<Rightarrow> node \<Rightarrow> Parser \<Rightarrow> node parse_result" where
  "parse_infix_body r left ps =
     (case infix_handler (get_rule (tok_type (current_token ps))) of
        None \<Rightarrow> throws (RuntimeError ''bad_function_call'')
      | Some H_call \<Rightarrow> call_fn r left ps
      | Some H_binary \<Rightarrow> binary_fn r left ps
      | Some H_assignment \<Rightarrow> assignment_fn r left ps)"

definition grouping_body :: "ParserFns \<Rightarrow> Parser \<Rightarrow> node parse_result" where
  "grouping_body r ps =
     pbind (parse_expression_fn r PREC_ASSIGNMENT (advance ps))
       (\<lambda>expr ps1. after_consume T_RPAREN ''Expect ')' after expression'' ps1
          (\<lambda>ps2. returns (expr, ps2)))"

definition matrix_body :: "ParserFns \<Rightarrow> Parser \<Rightarrow> node parse_result" where
  "matrix_body r ps =
     (case match T_RBRACKET (advance ps) of
        (True, ps1) \<Rightarrow> returns (create (\<lambda>p. MatrixNode p []) ps1)
      | (False, ps1) \<Rightarrow>
          pbind (matrix_rows_fn r [] ps1)
            (\<lambda>rows ps2. after_consume T_RBRACKET ''Expect ']' after matrix rows'' ps2
               (\<lambda>ps3. returns (create (\<lambda>p. MatrixNode p rows) ps3))))"

definition matrix_rows_body :: "ParserFns \<Rightarrow> node list list \<Rightarrow> Parser \<Rightarrow> (node list list) parse_result" where
  "matrix_rows_body r rows ps =
     pbind
       (case match T_LBRACKET ps of
          (True, ps1) \<Rightarrow>
            (case match T_RBRACKET ps1 of
               (True, ps2) \<Rightarrow> returns ([], ps2)
             | (False, ps2) \<Rightarrow>
                 pbind (expression_list_fn r [] ps2)
                   (\<lambda>row ps3. after_consume T_RBRACKET ''Expect ']' after row elements'' ps3
                      (\<lambda>ps4. returns (row, ps4))))
        | (False, ps1) \<Rightarrow>
            pbind (parse_expression_fn r PREC_ASSIGNMENT ps1) (\<lambda>expr ps2. returns ([expr], ps2)))
       (\<lambda>row ps5.
          case match T_COMMA ps5 of
            (True, ps6) \<Rightarrow> matrix_rows_fn r (rows @ [row]) ps6
          | (False, ps6) \<Rightarrow> returns (rows @ [row], ps6))"

definition expression_list_body :: "ParserFns \<Rightarrow> node list \<Rightarrow> Parser \<Rightarrow> (node list) parse_result" where
  "expression_list_body r acc ps =
     pbind (parse_expression_fn r PREC_ASSIGNMENT ps)
       (\<lambda>expr ps1.
          case match T_COMMA ps1 of
            (True, ps2) \<Rightarrow> expression_list_fn r (acc @ [expr]) ps2
          | (False, ps2) \<Rightarrow> returns (acc @ [expr], ps2))"

definition unary_body :: "ParserFns \<Rightarrow> Parser \<Rightarrow> node parse_result" where
  "unary_body r ps =
     pbind (parse_expression_fn r PREC_UNARY (advance ps))
       (\<lambda>right ps1. unary_node (tok_type (current_token ps)) right ps1)"

definition binary_body :: "ParserFns \<Rightarrow> node \<Rightarrow> Parser \<Rightarrow> node parse_result" where
  "binary_body r left ps =
     pbind (parse_expression_fn r (precedence (get_rule (tok_type (current_token ps)))) (advance ps))
       (\<lambda>right ps1. binary_node (tok_type (current_token ps)) left right ps1)"

definition assignment_body :: "ParserFns \<Rightarrow> node \<Rightarrow> Parser \<Rightarrow> node parse_result" where
  "assignment_body r left ps =
     (if node_type left \<noteq> Some VARIABLE then throws (throw_error ''Invalid assignment target'' ps)
      else pbind (parse_expression_fn r PREC_ASSIGNMENT (advance ps))
             (\<lambda>v ps1. returns (create (\<lambda>p. AssignmentNode p (node_name left) v) ps1)))"

definition call_body :: "ParserFns \<Rightarrow> node \<Rightarrow> Parser \<Rightarrow> node parse_result" where
  "call_body r left ps =
     (if node_type left \<noteq> Some VARIABLE
      then throws (throw_error ''Can only call functions and methods'' ps)
      else (case match T_RPAREN ps of
              (True, ps1) \<Rightarrow> returns (create (\<lambda>p. FunctionNode p (node_name left) []) ps1)
            | (False, ps1) \<Rightarrow>
                pbind (expression_list_fn r [] ps1)
                  (\<lambda>args ps2. after_consume T_RPAREN ''Expect ')' after arguments'' ps2
                     (\<lambda>ps3. returns (create (\<lambda>p. FunctionNode p (node_name left) args) ps3)))))"

primrec parser_fns :: "nat \<Rightarrow> ParserFns" where
  "parser_fns 0 =
     \<lparr> parse_expression_fn = (\<lambda>prec ps. None),
       infix_loop_fn = (\<lambda>prec expr ps. None),
       parse_prefix_fn = (\<lambda>ps. None),
       parse_infix_fn = (\<lambda>left ps. None),
       grouping_fn = (\<lambda>ps. None),
       matrix_fn = (\<lambda>ps. None),
       matrix_rows_fn = (\<lambda>rows ps. None),
       expression_list_fn = (\<lambda>acc ps. None),
       unary_fn = (\<lambda>ps. None),
       binary_fn = (\<lambda>left ps. None),
       assignment_fn = (\<lambda>left ps. None),
       call_fn = (\<lambda>left ps. None) \<rparr>"
| "parser_fns (Suc n) =
     \<lparr> parse_expression_fn = parse_expression_body (parser_fns n),
       infix_loop_fn = infix_loop_body (parser_fns n),
       parse_prefix_fn = parse_prefix_body (parser_fns n),
       parse_infix_fn = parse_infix_body (parser_fns n),
       grouping_fn = grouping_body (parser_fns n),
       matrix_fn = matrix_body (parser_fns n),
       matrix_rows_fn = matrix_rows_body (parser_fns n),
       expression_list_fn = expression_list_body (parser_fns n),
       unary_fn = unary_body (parser_fns n),
       binary_fn = binary_body (parser_fns n),
       assignment_fn = assignment_body (parser_fns n),
       call_fn = call_body (parser_fns n) \<rparr>"

text \<open>The functions of the parser, each with the depth of calls it may use.\<close>

definition parse_expression :: "nat \<Rightarrow> Precedence \<Rightarrow> Parser \<Rightarrow> node parse_result" where
  "parse_expression n = parse_expression_fn (parser_fns n)"

definition infix_loop :: "nat \<Rightarrow> Precedence \<Rightarrow> node \<Rightarrow> Parser \<Rightarrow> node parse_result" where
  "infix_loop n = infix_loop_fn (parser_fns n)"

definition parse_prefix :: "nat \<Rightarrow> Parser \<Rightarrow> node parse_result" where
  "parse_prefix n = parse_prefix_fn (parser_fns n)"

definition parse_infix :: "nat \<Rightarrow> node \<Rightarrow> Parser \<Rightarrow> node parse_result" where
  "parse_infix n = parse_infix_fn (parser_fns n)"

definition grouping :: "nat \<Rightarrow> Parser \<Rightarrow> node parse_result" where
  "grouping n = grouping_fn (parser_fns n)"

definition matrix :: "nat \<Rightarrow> Parser \<Rightarrow> node parse_result" where
  "matrix n = matrix_fn (parser_fns n)"

definition matrix_rows :: "nat \<Rightarrow> node list list \<Rightarrow> Parser \<Rightarrow> (node list list) parse_result" where
  "matrix_rows n = matrix_rows_fn (parser_fns n)"

definition expression_list :: "nat \<Rightarrow> node list \<Rightarrow> Parser \<Rightarrow> (node list) parse_result" where
  "expression_list n = expression_list_fn (parser_fns n)"

definition unary :: "nat \<Rightarrow> Parser \<Rightarrow> node parse_result" where
  "unary n = unary_fn (parser_fns n)"

definition binary :: "nat \<Rightarrow> node \<Rightarrow> Parser \<Rightarrow> node parse_result" where
  "binary n = binary_fn (parser_fns n)"

definition assignment :: "nat \<Rightarrow> node \<Rightarrow> Parser \<Rightarrow> node parse_result" where
  "assignment n = assignment_fn (parser_fns n)"

definition call :: "nat \<Rightarrow> node \<Rightarrow> Parser \<Rightarrow> node parse_result" where
  "call n = call_fn (parser_fns n)"

text \<open>\<^verbatim>\<open>parse(lexer)\<close>: a parser over the lexer, and \<^verbatim>\<open>parse_expression()\<close>.\<close>

definition parse :: "nat \<Rightarrow> Lexer \<Rightarrow> NodePool \<Rightarrow> node parse_result" where
  "parse fuel lx p = parse_expression fuel PREC_ASSIGNMENT (Parser_new lx p)"

text \<open>The parser over the tokens \<open>ts\<close>, with the pool at \<open>p\<close>.\<close>

definition parser_at :: "Token list \<Rightarrow> Token \<Rightarrow> NodePool \<Rightarrow> Parser" where
  "parser_at ts eof p = Parser_new \<lparr>pending = ts, eof_token = eof\<rparr> p"

text \<open>
  A chain of operands and binary operators: a first operand token, then pairs of an
  operator token and an operand token. An operand is a number or an identifier.
  \<open>binary_op_of\<close> is the operator the switch of \<^verbatim>\<open>binary\<close> picks for a token type, and
  \<open>right_nested\<close> the tree that groups the chain to the right, with the identities the
  factories give when the operands are made from left to right and the operator nodes
  from the innermost out.
\<close>

fun chain_tokens :: "Token \<Rightarrow> (Token \<times> Token) list \<Rightarrow> Token list" where
  "chain_tokens t0 [] = [t0]"
| "chain_tokens t0 ((opr, t) # rest) = t0 # opr # chain_tokens t rest"

definition operand_node :: "NodePool \<Rightarrow> Token \<Rightarrow> node" where
  "operand_node p t =
     (if tok_type t = T_NUMBER then NumberNode p (tok_value t) else VariableNode p (tok_text t))"

fun binary_op_of :: "TokenType \<Rightarrow> BinaryOp" where
  "binary_op_of T_MINUS = SUB"
| "binary_op_of T_STAR = MUL"
| "binary_op_of T_SLASH = DIV"
| "binary_op_of T_CARET = POW"
| "binary_op_of T_EQEQ = EQ"
| "binary_op_of T_NEQ = NEQ"
| "binary_op_of T_LESS = LT"
| "binary_op_of T_LEQ = LEQ"
| "binary_op_of T_GREATER = GT"
| "binary_op_of T_GEQ = GEQ"
| "binary_op_of _ = ADD"

fun right_nested :: "NodePool \<Rightarrow> Token \<Rightarrow> (Token \<times> Token) list \<Rightarrow> node \<times> NodePool" where
  "right_nested p t0 [] = (operand_node p t0, Suc p)"
| "right_nested p t0 ((opr, t) # rest) =
     (case right_nested (Suc p) t rest of
        (r, p') \<Rightarrow> (BinaryOpNode p' (binary_op_of (tok_type opr)) (operand_node p t0) r, Suc p'))"

definition is_operand :: "Token \<Rightarrow> bool" where
  "is_operand t = (tok_type t = T_NUMBER \<or> tok_type t = T_IDENTIFIER)"

definition is_binary_at :: "Precedence \<Rightarrow> Token \<Rightarrow> bool" where
  "is_binary_at q t =
     (infix_handler (get_rule (tok_type t)) = Some H_binary \<and> precedence (get_rule (tok_type t)) = q)"

section \<open>Properties of the evaluator\<close>

lemma d_eq_zero: "d_eq b (Finite 0) = (b = Finite 0)"
  by (cases b) auto

text \<open>
  C8. Whenever both operands of a \<open>BinaryOp\<close> node evaluate to values, \<open>/\<close> fails with
  "Division by zero" and \<open>%\<close> with "Modulo by zero" exactly when the value of the right
  operand is zero. Whenever the operand of a \<open>UnaryOp\<close> node evaluates to a value, \<open>LOG\<close>
  fails exactly when that value is \<open><= 0\<close> and \<open>SQRT\<close> exactly when it is \<open>< 0\<close>;
  \<open>SQRT\<close> of the value 0 succeeds and returns 0.
\<close>

theorem eval_zero_and_domain_guards:
  assumes "evaluate l ctx = (Inr a, ctx1)" and "evaluate r ctx1 = (Inr b, ctx2)"
    and "evaluate x ctx = (Inr v, ctx3)"
  shows "((fst (evaluate (BinaryOpNode p DIV l r) ctx) = Inl (EvaluationError ''Division by zero''))
            = (b = Finite 0))
       \<and> ((fst (evaluate (BinaryOpNode p MOD l r) ctx) = Inl (EvaluationError ''Modulo by zero''))
            = (b = Finite 0))
       \<and> ((fst (evaluate (UnaryOpNode q LOG x) ctx)
              = Inl (EvaluationError ''Logarithm of non-positive number''))
            = d_le v (Finite 0))
       \<and> ((fst (evaluate (UnaryOpNode q SQRT x) ctx)
              = Inl (EvaluationError ''Square root of negative number''))
            = d_less v (Finite 0))
       \<and> (v = Finite 0 \<longrightarrow> fst (evaluate (UnaryOpNode q SQRT x) ctx) = Inr (Finite 0))"
  using assms by (auto simp: d_le_def d_eq_zero)

theorem eval_zero_and_domain_guards_witness:
  "fst (evaluate (BinaryOpNode 2 DIV (NumberNode 0 (Finite 1)) (NumberNode 1 (Finite 0))) EvalContext_new)
     = Inl (EvaluationError ''Division by zero'')
   \<and> fst (evaluate (BinaryOpNode 2 MOD (NumberNode 0 (Finite 1)) (NumberNode 1 (Finite 0))) EvalContext_new)
     = Inl (EvaluationError ''Modulo by zero'')
   \<and> fst (evaluate (UnaryOpNode 4 LOG (NumberNode 3 (Finite 0))) EvalContext_new)
     = Inl (EvaluationError ''Logarithm of non-positive number'')
   \<and> fst (evaluate (UnaryOpNode 4 SQRT (NumberNode 3 (Finite 0))) EvalContext_new) = Inr (Finite 0)"
proof -
  have l: "evaluate (NumberNode 0 (Finite 1)) EvalContext_new = (Inr (Finite 1), EvalContext_new)"
    by simp
  have r: "evaluate (NumberNode 1 (Finite 0)) EvalContext_new = (Inr (Finite 0), EvalContext_new)"
    by simp
  have x: "evaluate (NumberNode 3 (Finite 0)) EvalContext_new = (Inr (Finite 0), EvalContext_new)"
    by simp
  show ?thesis
    using eval_zero_and_domain_guards [OF l r x, of 2 4] by (simp add: d_le_def)
qed

subsection \<open>The frame of evaluate\<close>

lemma call_impl_effect_free:
  "effect_free f \<Longrightarrow> call_impl f args ctx = (fst (run_impl f args (variables ctx)), ctx)"
proof -
  assume "effect_free f"
  then have "snd (run_impl f args (variables ctx)) = []"
    by (simp add: effect_free_def)
  then show ?thesis
    by (cases "run_impl f args (variables ctx)") (simp add: call_impl_def)
qed

lemma evaluate_frame:
  "effect_free_table ctx \<Longrightarrow> snd (evaluate n ctx) = ctx"
  "effect_free_table ctx \<Longrightarrow> snd (evaluate_args ns acc ctx) = ctx"
proof (induction n ctx and ns acc ctx rule: evaluate_evaluate_args.induct)
  case (4 p op l r ctx)
  from "4.IH"(1) [OF "4.prems"] have l: "snd (evaluate l ctx) = ctx" .
  show ?case
  proof (cases "evaluate l ctx")
    case (Pair res ctx1)
    with l have c: "ctx1 = ctx" by simp
    show ?thesis
    proof (cases res)
      case (Inl e)
      with Pair c show ?thesis by simp
    next
      case (Inr left)
      from "4.IH"(2) [OF Pair [unfolded Inr, symmetric] refl] "4.prems" c
      have "snd (evaluate r ctx) = ctx" by simp
      with Pair Inr c show ?thesis
        by (auto split: prod.splits sum.splits)
    qed
  qed
next
  case (5 p op x ctx)
  from "5.IH" [OF "5.prems"] show ?case
    by (auto split: prod.splits sum.splits)
next
  case (6 p name args ctx)
  from "6.IH" [OF "6.prems"] have a: "snd (evaluate_args args [] ctx) = ctx" .
  show ?case
  proof (cases "evaluate_args args [] ctx")
    case (Pair res ctx1)
    with a have c: "ctx1 = ctx" by simp
    show ?thesis
    proof (cases res)
      case (Inl e)
      with Pair c show ?thesis by simp
    next
      case (Inr vals)
      show ?thesis
      proof (cases "functions_tbl ctx name")
        case None
        with Pair Inr c show ?thesis by simp
      next
        case (Some f)
        with "6.prems" have "effect_free f" by (simp add: effect_free_table_def)
        with Pair Inr c Some show ?thesis by (simp add: call_impl_effect_free)
      qed
    qed
  qed
next
  case (11 arg rest acc ctx)
  from "11.IH"(1) [OF "11.prems"] have l: "snd (evaluate arg ctx) = ctx" .
  show ?case
  proof (cases "evaluate arg ctx")
    case (Pair res ctx1)
    with l have c: "ctx1 = ctx" by simp
    show ?thesis
    proof (cases res)
      case (Inl e)
      with Pair c show ?thesis by simp
    next
      case (Inr v)
      from "11.IH"(2) [OF Pair [unfolded Inr, symmetric] refl] "11.prems" c
      have "snd (evaluate_args rest (acc @ [v]) ctx) = ctx" by simp
      with Pair Inr c show ?thesis by simp
    qed
  qed
qed (simp_all split: option.splits)

text \<open>The contexts this file builds are free of effects, and stay so.\<close>

lemma effect_free_lambda [simp]: "effect_free (lambda_impl body)"
  by (simp add: effect_free_def lambda_impl_def)

lemma effect_free_registered [simp]: "effect_free f \<Longrightarrow> effect_free (registered_impl name f k)"
  by (simp add: effect_free_def registered_impl_def split: sum.splits)

lemma effect_free_table_new: "effect_free_table EvalContext_new"
  by (simp add: effect_free_table_def EvalContext_new_def)

lemma effect_free_table_set_variable:
  "effect_free_table ctx \<Longrightarrow> effect_free_table (set_variable name v ctx)"
  by (simp add: effect_free_table_def set_variable_def)

lemma effect_free_table_register:
  "effect_free_table ctx \<Longrightarrow> effect_free f \<Longrightarrow>
     effect_free_table (snd (register_function name f k ctx))"
  by (simp add: effect_free_table_def register_function_def)

lemma effect_free_table_initialize:
  "effect_free_table ctx \<Longrightarrow> effect_free_table (snd (initialize ctx))"
  by (auto simp: initialize_def effect_free_table_def register_function_def set_variable_def
        split: prod.splits sum.splits if_splits)

text \<open>
  C9, as amended. For every node and every context whose function table holds no
  closure that calls \<^verbatim>\<open>set_variable\<close> or \<^verbatim>\<open>register_function\<close> (the fresh context, the
  context after \<open>initialize\<close>, and these with further effect-free functions registered),
  the context \<open>evaluate\<close> leaves is the one it was given, whether the call returns a value
  or throws: no variable binding and no entry of the function table is added, removed or
  changed.
\<close>

theorem evaluate_leaves_context_unchanged:
  "effect_free_table ctx \<Longrightarrow> snd (evaluate n ctx) = ctx"
  by (rule evaluate_frame(1))

theorem evaluate_leaves_context_unchanged_witness:
  "effect_free_table (snd (initialize EvalContext_new))
   \<and> snd (evaluate (FunctionNode 2 ''abs'' [UnaryOpNode 1 NEGATE (NumberNode 0 (Finite 5))])
            (snd (initialize EvalContext_new)))
       = snd (initialize EvalContext_new)"
proof -
  have t: "effect_free_table (snd (initialize EvalContext_new))"
    using effect_free_table_new by (rule effect_free_table_initialize)
  from t evaluate_leaves_context_unchanged [OF t] show ?thesis
    by blast
qed

text \<open>
  C9 as stated fails: \<^verbatim>\<open>register_function\<close> takes any closure, and one that calls
  \<^verbatim>\<open>set_variable\<close> changes the context when \<open>evaluate\<close> calls it. Here \<open>setx\<close> is
  registered with arity 0 on a fresh context; its closure sets \<open>x\<close> to 1 and returns 0.
\<close>

theorem evaluate_runs_closure_effects:
  "variables (snd (register_function ''setx''
                     (Impl (\<lambda>args vars. (Inr (Finite 0), [SetVariable ''x'' (Finite 1)]))) 0
                     EvalContext_new)) ''x'' = None
   \<and> variables (snd (evaluate (FunctionNode 0 ''setx'' [])
                      (snd (register_function ''setx''
                              (Impl (\<lambda>args vars. (Inr (Finite 0), [SetVariable ''x'' (Finite 1)]))) 0
                              EvalContext_new)))) ''x'' = Some (Finite 1)"
  by (simp add: register_function_def EvalContext_new_def call_impl_def registered_impl_def
        validate_args_def set_variable_def)

subsection \<open>Registered functions and their arity\<close>

lemma unat_minus_one_64: "unat (- 1 :: 64 word) = 18446744073709551615"
  by (simp add: unsigned_minus_1_eq_mask mask_eq_exp_minus_1)

lemma to_string_max: "to_string 18446744073709551615 = ''18446744073709551615''"
  by (simp add: to_string.simps digit_def)

text \<open>
  What \<open>register_function\<close> stores checks the number of arguments against the arity as
  two \<^verbatim>\<open>size_t\<close> values, whatever the arity is.
\<close>

lemma registered_impl_arity_check:
  "run_impl (registered_impl name f k) args vars =
     (if (of_nat (length args) :: 64 word) \<noteq> k
      then (Inl (EvaluationError (''Function '' @ name @ '' expects '' @ to_string (unat k)
                  @ '' arguments, got '' @ to_string (unat (of_nat (length args) :: 64 word)))), [])
      else run_impl f args vars)"
  by (auto simp: registered_impl_def validate_args_def)

text \<open>
  The arity \<^verbatim>\<open>-1\<close> is the \<^verbatim>\<open>size_t\<close> value \<open>2^64 - 1\<close>: a function registered with it
  rejects every argument list shorter than that.
\<close>

lemma variadic_registration_rejects:
  assumes "length args < 2 ^ 64 - 1"
  shows "run_impl (registered_impl name f (- 1)) args vars =
     (Inl (EvaluationError (''Function '' @ name @ '' expects 18446744073709551615 arguments, got ''
            @ to_string (length args))), [])"
proof -
  have u: "unat (of_nat (length args) :: 64 word) = length args"
    using assms by (simp add: unat_of_nat)
  have "unat (of_nat (length args) :: 64 word) \<noteq> unat (- 1 :: 64 word)"
    using assms unfolding u unat_minus_one_64 by simp
  then have "(of_nat (length args) :: 64 word) \<noteq> - 1"
    by auto
  then show ?thesis
    by (simp add: registered_impl_arity_check u unat_minus_one_64 to_string_max)
qed

lemma functions_after_initialize:
  "functions_tbl (snd (initialize EvalContext_new)) =
     (functions_tbl EvalContext_new)
       (''abs'' \<mapsto> registered_impl ''abs'' (lambda_impl abs_impl) 1,
        ''min'' \<mapsto> registered_impl ''min'' (lambda_impl min_impl) (- 1),
        ''max'' \<mapsto> registered_impl ''max'' (lambda_impl max_impl) (- 1),
        ''sum'' \<mapsto> registered_impl ''sum'' (lambda_impl sum_impl) (- 1),
        ''avg'' \<mapsto> registered_impl ''avg'' (lambda_impl avg_impl) (- 1))"
  by (simp add: initialize_def register_function_def EvalContext_new_def set_variable_def)

lemma initialize_succeeds: "fst (initialize EvalContext_new) = Inr ()"
  by (simp add: initialize_def register_function_def EvalContext_new_def set_variable_def)

lemma variadic_three:
  "run_impl (registered_impl name f (- 1)) [a, b, c] vars =
     (Inl (EvaluationError (''Function '' @ name @ '' expects 18446744073709551615 arguments, got 3'')), [])"
  by (simp add: registered_impl_def validate_args_def unat_minus_one_64 to_string_max)
     (simp add: to_string.simps digit_def)

text \<open>
  C1. After \<open>initialize\<close> on a fresh context, the call \<open>max(1, 7, 3)\<close> does not return 7:
  the arity check is made with the arity \<open>2^64 - 1\<close>, and the call throws.
\<close>

theorem max_call_after_initialize_fails:
  "fst (evaluate (FunctionNode 3 ''max''
                   [NumberNode 0 (Finite 1), NumberNode 1 (Finite 7), NumberNode 2 (Finite 3)])
          (snd (initialize EvalContext_new)))
     = Inl (EvaluationError ''Function max expects 18446744073709551615 arguments, got 3'')"
  by (simp add: functions_after_initialize variadic_three call_impl_def)

subsection \<open>The functions of a fresh context\<close>

lemma fresh_table:
  "functions_tbl EvalContext_new =
     [''sin'' \<mapsto> lambda_impl (unary_impl std_sin), ''cos'' \<mapsto> lambda_impl (unary_impl std_cos),
      ''tan'' \<mapsto> lambda_impl (unary_impl std_tan), ''exp'' \<mapsto> lambda_impl (unary_impl std_exp),
      ''log'' \<mapsto> lambda_impl (unary_impl std_log), ''sqrt'' \<mapsto> lambda_impl (unary_impl std_sqrt),
      ''pow'' \<mapsto> lambda_impl pow_impl]"
  by (simp add: EvalContext_new_def)

lemma register_taken:
  "functions_tbl ctx name \<noteq> None \<Longrightarrow>
     register_function name f k ctx
       = (Inl (EvaluationError (''Function already registered: '' @ name)), ctx)"
  by (simp add: register_function_def)

lemma call_lambda_impl [simp]: "call_impl (lambda_impl body) args ctx = (body args, ctx)"
  by (simp add: call_impl_def lambda_impl_def)

text \<open>
  C10. A fresh context holds \<open>sin\<close>, \<open>cos\<close>, \<open>tan\<close>, \<open>exp\<close>, \<open>log\<close>, \<open>sqrt\<close> and \<open>pow\<close>,
  each stored as it is, without the arity check of \<open>register_function\<close>. Registering any
  of the seven names fails with "Function already registered", in the fresh context and
  after \<open>initialize\<close>. A call to one of them has no domain guard and no arity check: the
  call \<open>log(0)\<close> returns minus infinity where the \<open>LOG\<close> operator throws, \<open>sqrt(-1)\<close>
  returns NaN, \<open>sin\<close> with two arguments returns the sine of the first, and \<open>sin\<close> with
  none reads the empty argument vector, which is undefined rather than an arity error.
\<close>

theorem fresh_context_builtin_table:
  "functions_tbl EvalContext_new =
     [''sin'' \<mapsto> lambda_impl (unary_impl std_sin), ''cos'' \<mapsto> lambda_impl (unary_impl std_cos),
      ''tan'' \<mapsto> lambda_impl (unary_impl std_tan), ''exp'' \<mapsto> lambda_impl (unary_impl std_exp),
      ''log'' \<mapsto> lambda_impl (unary_impl std_log), ''sqrt'' \<mapsto> lambda_impl (unary_impl std_sqrt),
      ''pow'' \<mapsto> lambda_impl pow_impl]
   \<and> list_all (\<lambda>name. register_function name f k EvalContext_new
          = (Inl (EvaluationError (''Function already registered: '' @ name)), EvalContext_new))
        builtin_names
   \<and> list_all (\<lambda>name. register_function name f k (snd (initialize EvalContext_new))
          = (Inl (EvaluationError (''Function already registered: '' @ name)),
             snd (initialize EvalContext_new)))
        builtin_names
   \<and> fst (evaluate (FunctionNode p ''log'' [NumberNode q (Finite 0)]) EvalContext_new) = Inr NegInf
   \<and> fst (evaluate (UnaryOpNode p LOG (NumberNode q (Finite 0))) EvalContext_new)
        = Inl (EvaluationError ''Logarithm of non-positive number'')
   \<and> fst (evaluate (FunctionNode p ''sqrt'' [NumberNode q (Finite (- 1))]) EvalContext_new) = Inr NaN
   \<and> fst (evaluate (FunctionNode p ''sin'' [NumberNode q a, NumberNode r b]) EvalContext_new)
        = Inr (std_sin a)
   \<and> fst (evaluate (FunctionNode p ''sin'' []) EvalContext_new) = Inl UndefinedBehaviour"
proof -
  have r1: "list_all (\<lambda>name. register_function name f k EvalContext_new
          = (Inl (EvaluationError (''Function already registered: '' @ name)), EvalContext_new))
        builtin_names"
    by (simp add: builtin_names_def register_taken fresh_table)
  have r2: "list_all (\<lambda>name. register_function name f k (snd (initialize EvalContext_new))
          = (Inl (EvaluationError (''Function already registered: '' @ name)),
             snd (initialize EvalContext_new)))
        builtin_names"
    by (simp add: builtin_names_def register_taken functions_after_initialize fresh_table)
  have e: "fst (evaluate (FunctionNode p ''log'' [NumberNode q (Finite 0)]) EvalContext_new) = Inr NegInf"
    "fst (evaluate (UnaryOpNode p LOG (NumberNode q (Finite 0))) EvalContext_new)
        = Inl (EvaluationError ''Logarithm of non-positive number'')"
    "fst (evaluate (FunctionNode p ''sqrt'' [NumberNode q (Finite (- 1))]) EvalContext_new) = Inr NaN"
    "fst (evaluate (FunctionNode p ''sin'' [NumberNode q a, NumberNode r b]) EvalContext_new)
        = Inr (std_sin a)"
    "fst (evaluate (FunctionNode p ''sin'' []) EvalContext_new) = Inl UndefinedBehaviour"
    by (simp_all add: fresh_table unary_impl_def arg_at_def d_le_def)
  from fresh_table r1 r2 e show ?thesis by blast
qed

section \<open>Properties of traverse\<close>

lemma preorder_list_filter:
  "concat (map preorder (filter (\<lambda>x. x \<noteq> Nullptr) xs)) = concat (map preorder xs)"
  by (induction xs) auto

lemma preorder_rows_concat:
  "concat (map (\<lambda>row. concat (map preorder row)) rows) = concat (map preorder (concat rows))"
  by (induction rows) auto

lemma push_rows_filter':
  "foldl (\<lambda>st row. filter (\<lambda>x. x \<noteq> Nullptr) row @ st) stack (rev rows)
     = filter (\<lambda>x. x \<noteq> Nullptr) (concat rows) @ stack"
  using push_rows_filter [of stack rows] by (simp add: push_reversed_filter)

lemma push_children_append: "push_children n stack = push_children n [] @ stack"
  by (cases n) (simp_all add: push_if_def push_reversed_filter push_rows_filter')

lemma push_children_no_null: "Nullptr \<notin> set (push_children n [])"
  by (cases n) (simp_all add: push_if_def push_reversed_filter push_rows_filter')

lemma preorder_push_children:
  "\<not> is_statement n \<Longrightarrow> n \<noteq> Nullptr \<Longrightarrow>
     preorder n = n # concat (map preorder (push_children n []))"
  by (cases n)
     (simp_all add: push_if_def push_reversed_filter push_rows_filter' preorder_list_filter
        preorder_rows_concat)

lemma traverse_loop_preorder:
  "Nullptr \<notin> set stack \<Longrightarrow> list_all traversable stack \<Longrightarrow>
     traverse_loop stack visitor s = Inr (fold visitor (concat (map preorder stack)) s)"
proof (induction stack visitor s rule: traverse_loop.induct)
  case (1 visitor s)
  then show ?case by simp
next
  case (2 current stack visitor s)
  from 2 have nn: "current \<noteq> Nullptr" by auto
  from 2 have tc: "traversable current" by simp
  from nn tc have ns: "\<not> is_statement current"
    by (cases current) (simp_all add: traversable_def)
  have po: "preorder current = current # concat (map preorder (push_children current []))"
    using ns nn by (rule preorder_push_children)
  have kids: "list_all traversable (push_children current [])"
  proof -
    have "\<forall>x\<in>set (preorder current). \<not> is_statement x"
      using tc by (simp add: traversable_def list_all_iff)
    then have "\<forall>x\<in>set (concat (map preorder (push_children current []))). \<not> is_statement x"
      by (subst (asm) po) simp
    then show ?thesis
      by (auto simp: traversable_def list_all_iff)
  qed
  have st: "push_children current stack = push_children current [] @ stack"
    by (rule push_children_append)
  have "traverse_loop (push_children current stack) visitor (visitor current s)
      = Inr (fold visitor (concat (map preorder (push_children current stack))) (visitor current s))"
  proof -
    have a: "Nullptr \<notin> set (push_children current stack)"
      using 2(2) push_children_no_null [of current] by (subst st) auto
    have b: "list_all traversable (push_children current stack)"
      using 2(3) kids by (subst st) simp
    show ?thesis using 2(1) [OF nn a b] .
  qed
  moreover have "concat (map preorder (push_children current stack))
      = concat (map preorder (push_children current [])) @ concat (map preorder stack)"
    by (subst st) simp
  moreover have "concat (map preorder (current # stack))
      = current # concat (map preorder (push_children current [])) @ concat (map preorder stack)"
    using po by simp
  ultimately show ?case
    using nn by simp
qed

text \<open>
  C6, as amended. For a tree with no statement node (Number, Boolean, String, Variable,
  BinaryOp, UnaryOp, Function, Matrix and Tensor nodes, with null children allowed),
  \<open>traverse\<close> returns and has called the visitor on the nodes of the tree in pre-order,
  once for each node: the node before its children, the children from left to right.
\<close>

theorem traverse_visits_preorder:
  "traversable n \<Longrightarrow> traverse n visitor s = Inr (fold visitor (preorder n) s)"
proof (cases "n = Nullptr")
  case True
  then show ?thesis by (simp add: traverse_def)
next
  case False
  assume "traversable n"
  with False have "traverse_loop [n] visitor s = Inr (fold visitor (concat (map preorder [n])) s)"
    by (intro traverse_loop_preorder) simp_all
  with False show ?thesis
    by (simp add: traverse_def del: traverse_loop.simps)
qed

theorem traverse_visits_preorder_witness:
  "traversable (BinaryOpNode 2 ADD (NumberNode 0 (Finite 1)) (NumberNode 1 (Finite 2)))
   \<and> traverse (BinaryOpNode 2 ADD (NumberNode 0 (Finite 1)) (NumberNode 1 (Finite 2)))
         (\<lambda>n visited. visited @ [n]) []
       = Inr [BinaryOpNode 2 ADD (NumberNode 0 (Finite 1)) (NumberNode 1 (Finite 2)),
              NumberNode 0 (Finite 1), NumberNode 1 (Finite 2)]"
proof -
  have t: "traversable (BinaryOpNode 2 ADD (NumberNode 0 (Finite 1)) (NumberNode 1 (Finite 2)))"
    by (simp add: traversable_def)
  show ?thesis
    using t traverse_visits_preorder [OF t, of "\<lambda>n visited. visited @ [n]" "[]"] by simp
qed

text \<open>
  C6 as stated fails on the statement variants: \<open>traverse\<close> visits an Assignment node
  and not the value under it.
\<close>

theorem traverse_skips_statement_children:
  "traverse (AssignmentNode 1 ''x'' (NumberNode 0 (Finite 1))) (\<lambda>n visited. visited @ [n]) []
     = Inr [AssignmentNode 1 ''x'' (NumberNode 0 (Finite 1))]
   \<and> preorder (AssignmentNode 1 ''x'' (NumberNode 0 (Finite 1)))
     = [AssignmentNode 1 ''x'' (NumberNode 0 (Finite 1)), NumberNode 0 (Finite 1)]"
  by (simp add: traverse_def)

text \<open>On a statement node \<open>traverse\<close> visits the node and nothing below it.\<close>

lemma traverse_statement_node:
  "is_statement n \<Longrightarrow> traverse n visitor s = Inr (visitor n s)"
  by (cases n) (simp_all add: traverse_def)

section \<open>Properties of equals and hash\<close>

lemma consistent_in_mono:
  "consistent_in xs ys \<Longrightarrow> set xs' \<subseteq> set xs \<Longrightarrow> set ys' \<subseteq> set ys \<Longrightarrow> consistent_in xs' ys'"
  by (auto simp: consistent_in_def)

lemma preorder_self: "a \<noteq> Nullptr \<Longrightarrow> a \<in> set (preorder a)"
  by (cases a) simp_all

lemma address_None: "(address a = None) = (a = Nullptr)"
  by (cases a) simp_all

lemma same_address_same_node:
  "consistent_in (preorder a) (preorder b) \<Longrightarrow> address a = address b \<Longrightarrow> a = b"
proof (cases "a = Nullptr")
  case True
  assume "address a = address b"
  with True show ?thesis using address_None [of b] by simp
next
  case False
  assume c: "consistent_in (preorder a) (preorder b)" and e: "address a = address b"
  from False e have "b \<noteq> Nullptr" using address_None [of a] address_None [of b] by auto
  with False c e show ?thesis
    using preorder_self [of a] preorder_self [of b] by (auto simp: consistent_in_def)
qed

lemma equals_unfold:
  "address a \<noteq> address b \<Longrightarrow> equals a b = Inr True \<Longrightarrow>
     a \<noteq> Nullptr \<and> b \<noteq> Nullptr \<and> node_type a = node_type b"
  by (subst (asm) equals.simps) (simp split: if_splits)

lemma equals_hash:
  "consistent_in (preorder a) (preorder b) \<Longrightarrow> equals a b = Inr True \<Longrightarrow> hash H a = hash H b"
  "consistent_in (concat (map preorder xs)) (concat (map preorder ys)) \<Longrightarrow> length xs = length ys \<Longrightarrow>
     equals_list xs ys = Inr True \<Longrightarrow> hash_list H xs h = hash_list H ys h"
  "consistent_in (concat (map preorder (concat rs))) (concat (map preorder (concat rs'))) \<Longrightarrow>
     length rs = length rs' \<Longrightarrow>
     equals_rows rs rs' = Inr True \<Longrightarrow> hash_rows H rs h = hash_rows H rs' h"
proof (induction a b and xs ys and rs rs' arbitrary: and h and h rule: equals_equals_list_equals_rows.induct)
  case (1 a b)
  note con = "1.prems"(1) and eq = "1.prems"(2)
  show ?case
  proof (cases "address a = address b")
    case True
    with con have "a = b" by (intro same_address_same_node)
    then show ?thesis by simp
  next
    case False
    from equals_unfold [OF False eq]
    have na: "a \<noteq> Nullptr" and nb: "b \<noteq> Nullptr" and ty: "node_type a = node_type b"
      by simp_all
    have pre: "address a \<noteq> address b" "\<not> (a = Nullptr \<or> b = Nullptr)" "\<not> node_type a \<noteq> node_type b"
      using False na nb ty by simp_all
    show ?thesis
    proof (cases a)
      case Nullptr
      with na show ?thesis by simp
    next
      case (NumberNode p va)
      with ty obtain q vb where b: "b = NumberNode q vb" by (cases b) simp_all
      from eq False have "d_eq va vb"
        by (subst (asm) equals.simps) (simp add: NumberNode b)
      then have "va = vb" by (cases va; cases vb) simp_all
      then show ?thesis by (simp add: NumberNode b)
    next
      case (VariableNode p na')
      with ty obtain q nb' where b: "b = VariableNode q nb'" by (cases b) simp_all
      from eq False have "na' = nb'"
        by (subst (asm) equals.simps) (simp add: VariableNode b)
      then show ?thesis by (simp add: VariableNode b)
    next
      case (BinaryOpNode p opa la ra)
      with ty obtain q opb lb rb where b: "b = BinaryOpNode q opb lb rb" by (cases b) simp_all
      from eq False have e: "opa = opb" "equals la lb = Inr True" "equals ra rb = Inr True"
        by (subst (asm) equals.simps, simp add: BinaryOpNode b split: if_splits sum.splits bool.splits)+
      have cl: "consistent_in (preorder la) (preorder lb)"
        using con by (rule consistent_in_mono) (auto simp: BinaryOpNode b)
      have cr: "consistent_in (preorder ra) (preorder rb)"
        using con by (rule consistent_in_mono) (auto simp: BinaryOpNode b)
      have "\<not> opa \<noteq> opb" using e(1) by simp
      from "1.IH"(1) [OF pre BinaryOpNode b this cl e(2)]
           "1.IH"(2) [OF pre BinaryOpNode b this e(2) refl cr e(3)]
      show ?thesis by (simp add: BinaryOpNode b e(1) split: sum.splits)
    next
      case (UnaryOpNode p opa xa)
      with ty obtain q opb xb where b: "b = UnaryOpNode q opb xb" by (cases b) simp_all
      from eq False have e: "opa = opb" "equals xa xb = Inr True"
        by (subst (asm) equals.simps, simp add: UnaryOpNode b split: if_splits)+
      have cx: "consistent_in (preorder xa) (preorder xb)"
        using con by (rule consistent_in_mono) (auto simp: UnaryOpNode b)
      have "\<not> opa \<noteq> opb" using e(1) by simp
      from "1.IH"(3) [OF pre UnaryOpNode b this cx e(2)]
      show ?thesis by (simp add: UnaryOpNode b e(1))
    next
      case (FunctionNode p na' argsa)
      with ty obtain q nb' argsb where b: "b = FunctionNode q nb' argsb" by (cases b) simp_all
      from eq False have e: "na' = nb'" "length argsa = length argsb" "equals_list argsa argsb = Inr True"
        by (subst (asm) equals.simps, simp add: FunctionNode b split: if_splits)+
      have c: "consistent_in (concat (map preorder argsa)) (concat (map preorder argsb))"
        using con by (rule consistent_in_mono) (auto simp: FunctionNode b)
      have "\<not> (na' \<noteq> nb' \<or> length argsa \<noteq> length argsb)" using e by simp
      from "1.IH"(4) [OF pre FunctionNode b this c e(2) e(3)]
      show ?thesis by (simp add: FunctionNode b e(1))
    next
      case (MatrixNode p ea)
      with ty obtain q eb where b: "b = MatrixNode q eb" by (cases b) simp_all
      from eq False have e: "length ea = length eb" "equals_rows ea eb = Inr True"
        by (subst (asm) equals.simps, simp add: MatrixNode b split: if_splits)+
      have c: "consistent_in (concat (map preorder (concat ea))) (concat (map preorder (concat eb)))"
        using con by (rule consistent_in_mono) (auto simp: MatrixNode b)
      have "\<not> length ea \<noteq> length eb" using e by simp
      from "1.IH"(5) [OF pre MatrixNode b this c e(1) e(2)]
      show ?thesis by (simp add: MatrixNode b)
    next
      case (TensorNode p da valsa)
      with ty obtain q db valsb where b: "b = TensorNode q db valsb" by (cases b) simp_all
      from eq False have e: "da = db" "length valsa = length valsb" "equals_list valsa valsb = Inr True"
        by (subst (asm) equals.simps, simp add: TensorNode b split: if_splits)+
      have c: "consistent_in (concat (map preorder valsa)) (concat (map preorder valsb))"
        using con by (rule consistent_in_mono) (auto simp: TensorNode b)
      have "\<not> (da \<noteq> db \<or> length valsa \<noteq> length valsb)" using e by simp
      from "1.IH"(6) [OF pre TensorNode b this c e(2) e(3)]
      show ?thesis by (simp add: TensorNode b e(1))
    qed (use eq False na nb ty in \<open>subst (asm) equals.simps, simp\<close>)+
  qed
next
  case (2 x xs y ys)
  from "2.prems"(3) have e: "equals x y = Inr True" "equals_list xs ys = Inr True"
    by (simp_all split: sum.splits bool.splits)
  have cx: "consistent_in (preorder x) (preorder y)"
    using "2.prems"(1) by (rule consistent_in_mono) auto
  have cxs: "consistent_in (concat (map preorder xs)) (concat (map preorder ys))"
    using "2.prems"(1) by (rule consistent_in_mono) auto
  from "2.IH"(1) [OF cx e(1)] have hx: "hash H x = hash H y" .
  from "2.prems"(2) have len: "length xs = length ys" by simp
  show ?case
    using "2.IH"(2) [OF e(1) refl cxs len e(2)] hx by (simp split: sum.splits)
next
  case (4 ra rsa rb rsb)
  from "4.prems"(3) have e: "length ra = length rb" "equals_list ra rb = Inr True"
      "equals_rows rsa rsb = Inr True"
    by (simp_all split: sum.splits bool.splits if_splits)
  have c1: "consistent_in (concat (map preorder ra)) (concat (map preorder rb))"
    using "4.prems"(1) by (rule consistent_in_mono) auto
  have c2: "consistent_in (concat (map preorder (concat rsa))) (concat (map preorder (concat rsb)))"
    using "4.prems"(1) by (rule consistent_in_mono) auto
  have n: "\<not> length ra \<noteq> length rb" using e(1) by simp
  from "4.prems"(2) have len: "length rsa = length rsb" by simp
  show ?case
    using "4.IH"(1) [OF n c1 e(1) e(2)] "4.IH"(2) [OF n e(2) refl c2 len e(3)]
    by (simp split: sum.splits)
qed simp_all

text \<open>The trees of the variants \<open>clone\<close>, \<open>equals\<close> and \<open>hash\<close> have a case for.\<close>

lemma cloneable_simps [simp]:
  "cloneable Nullptr"
  "cloneable (NumberNode p v)"
  "cloneable (VariableNode p name)"
  "cloneable (BinaryOpNode p op l r) = (cloneable l \<and> cloneable r)"
  "cloneable (UnaryOpNode p uop x) = cloneable x"
  "cloneable (FunctionNode p name args) = list_all cloneable args"
  "cloneable (MatrixNode p elements) = list_all (list_all cloneable) elements"
  "cloneable (TensorNode p dims vals) = list_all cloneable vals"
  "\<not> cloneable (BooleanNode p b)"
  "\<not> cloneable (StringNode p s)"
  "\<not> cloneable (AssignmentNode p name y)"
  "\<not> cloneable (BlockNode p statements)"
  "\<not> cloneable (IfNode p c t e)"
  "\<not> cloneable (WhileNode p c body)"
  "\<not> cloneable (ForNode p i c inc body)"
  "\<not> cloneable (ReturnNode p y)"
  by (auto simp: cloneable_def list_all_iff)

text \<open>\<open>hash\<close> returns on every tree of the handled variants.\<close>

lemma hash_returns:
  "cloneable a \<Longrightarrow> \<exists>h. hash H a = Inr h"
  "list_all cloneable xs \<Longrightarrow> \<exists>h'. hash_list H xs h = Inr h'"
  "list_all (list_all cloneable) rs \<Longrightarrow> \<exists>h'. hash_rows H rs h = Inr h'"
proof (induction H a and H xs h and H rs h rule: hash_hash_list_hash_rows.induct)
  case (4 H p op l r)
  from "4.prems" have c: "cloneable l" "cloneable r" by simp_all
  from "4.IH"(1) [OF c(1)] obtain hl where hl: "hash H l = Inr hl" by blast
  from "4.IH"(2) [OF hl c(2)] obtain hr where hr: "hash H r = Inr hr" by blast
  from hl hr show ?case by simp
next
  case (5 H p op x)
  from "5.prems" have "cloneable x" by simp
  from "5.IH" [OF this] obtain hx where "hash H x = Inr hx" by blast
  then show ?case by simp
next
  case (6 H p name args)
  from "6.prems" have "list_all cloneable args" by simp
  from "6.IH" [OF this] show ?case by simp
next
  case (7 H p elements)
  from "7.prems" have "list_all (list_all cloneable) elements" by simp
  from "7.IH" [OF this] show ?case by simp
next
  case (8 H p dims vals)
  from "8.prems" have "list_all cloneable vals" by simp
  from "8.IH" [OF this] show ?case by simp
next
  case (11 H x xs h)
  from "11.prems" have c: "cloneable x" "list_all cloneable xs" by simp_all
  from "11.IH"(1) [OF c(1)] obtain hx where hx: "hash H x = Inr hx" by blast
  from "11.IH"(2) [OF hx c(2)] hx show ?case by simp
next
  case (13 H row rows h)
  from "13.prems" have c: "list_all cloneable row" "list_all (list_all cloneable) rows" by simp_all
  from "13.IH"(1) [OF c(1)] obtain h' where h': "hash_list H row h = Inr h'" by blast
  from "13.IH"(2) [OF h' c(2)] h' show ?case by simp
qed simp_all

text \<open>
  C5, as amended. For all nodes \<open>a\<close> and \<open>b\<close> in which an identity denotes one object,
  where \<open>a\<close> is a tree of Number, Variable, BinaryOp, UnaryOp, Function, Matrix and Tensor
  nodes: if \<open>equals(a, b)\<close> returns true then \<open>hash(a)\<close> and \<open>hash(b)\<close> both return, and
  return the same value, whatever the hash functions of the standard library are. Two
  doubles that compare equal are one value of the model; for the two zeros of IEEE-754,
  which the model does not tell apart, the property rests on \<^verbatim>\<open>std::hash<double>\<close> giving
  equal keys equal hashes, as the standard requires.
\<close>

theorem equals_implies_equal_hash:
  "consistent a b \<Longrightarrow> cloneable a \<Longrightarrow> equals a b = Inr True \<Longrightarrow>
     \<exists>h. hash H a = Inr h \<and> hash H b = Inr h"
proof -
  assume c: "consistent a b" and cl: "cloneable a" and e: "equals a b = Inr True"
  from c have "consistent_in (preorder a) (preorder b)" by (simp add: consistent_def)
  from equals_hash(1) [OF this e] have "hash H a = hash H b" .
  with hash_returns(1) [OF cl, of H] show ?thesis by auto
qed

theorem equals_implies_equal_hash_witness:
  "consistent (BinaryOpNode 2 ADD (NumberNode 0 (Finite 1)) (VariableNode 1 ''x''))
              (BinaryOpNode 5 ADD (NumberNode 3 (Finite 1)) (VariableNode 4 ''x''))
   \<and> cloneable (BinaryOpNode 2 ADD (NumberNode 0 (Finite 1)) (VariableNode 1 ''x''))
   \<and> equals (BinaryOpNode 2 ADD (NumberNode 0 (Finite 1)) (VariableNode 1 ''x''))
             (BinaryOpNode 5 ADD (NumberNode 3 (Finite 1)) (VariableNode 4 ''x'')) = Inr True
   \<and> (\<exists>h. hash \<lparr>hash_double = (\<lambda>v. 7), hash_string = (\<lambda>s. of_nat (length s)), hash_size_t = (\<lambda>w. w)\<rparr>
               (BinaryOpNode 2 ADD (NumberNode 0 (Finite 1)) (VariableNode 1 ''x'')) = Inr h
          \<and> hash \<lparr>hash_double = (\<lambda>v. 7), hash_string = (\<lambda>s. of_nat (length s)), hash_size_t = (\<lambda>w. w)\<rparr>
               (BinaryOpNode 5 ADD (NumberNode 3 (Finite 1)) (VariableNode 4 ''x'')) = Inr h)"
proof -
  have c: "consistent (BinaryOpNode 2 ADD (NumberNode 0 (Finite 1)) (VariableNode 1 ''x''))
              (BinaryOpNode 5 ADD (NumberNode 3 (Finite 1)) (VariableNode 4 ''x''))"
    by (simp add: consistent_def consistent_in_def)
  have cl: "cloneable (BinaryOpNode 2 ADD (NumberNode 0 (Finite 1)) (VariableNode 1 ''x''))"
    by simp
  have e: "equals (BinaryOpNode 2 ADD (NumberNode 0 (Finite 1)) (VariableNode 1 ''x''))
             (BinaryOpNode 5 ADD (NumberNode 3 (Finite 1)) (VariableNode 4 ''x'')) = Inr True"
    by (simp add: equals.simps)
  from c cl e equals_implies_equal_hash [OF c cl e] show ?thesis by blast
qed

text \<open>
  C5 as stated fails on the variants \<open>hash\<close> has no case for: a Boolean node is equal to
  itself, by the identity of the two pointers, and its hash is an exception, not a value.
\<close>

theorem equals_true_hash_throws:
  "consistent (BooleanNode 0 True) (BooleanNode 0 True)
   \<and> equals (BooleanNode 0 True) (BooleanNode 0 True) = Inr True
   \<and> hash \<lparr>hash_double = (\<lambda>v. 7), hash_string = (\<lambda>s. of_nat (length s)), hash_size_t = (\<lambda>w. w)\<rparr>
          (BooleanNode 0 True) = Inl (RuntimeError ''Unknown node type in hash'')"
  by (simp add: consistent_def consistent_in_def equals.simps)

text \<open>So it is for every node of a variant \<open>hash\<close> has no case for.\<close>

lemma equals_self_hash_unhandled:
  "x \<noteq> Nullptr \<Longrightarrow> \<not> is_handled x \<Longrightarrow>
     equals x x = Inr True \<and> hash H x = Inl (RuntimeError ''Unknown node type in hash'')"
  by (cases x) (simp_all add: equals.simps)

section \<open>Properties of clone\<close>

lemma addresses_simps [simp]:
  "addresses Nullptr = {}"
  "addresses (NumberNode p v) = {p}"
  "addresses (VariableNode p name) = {p}"
  "addresses (BinaryOpNode p op l r) = insert p (addresses l \<union> addresses r)"
  "addresses (UnaryOpNode p uop x) = insert p (addresses x)"
  "addresses (FunctionNode p name args) = insert p (\<Union> (addresses ` set args))"
  "addresses (MatrixNode p elements) = insert p (\<Union> (addresses ` set (concat elements)))"
  "addresses (TensorNode p dims vals) = insert p (\<Union> (addresses ` set vals))"
  by (auto simp: addresses_def)

lemma nan_free_simps [simp]:
  "nan_free Nullptr"
  "nan_free (NumberNode p v) = (v \<noteq> NaN)"
  "nan_free (VariableNode p name)"
  "nan_free (BinaryOpNode p op l r) = (nan_free l \<and> nan_free r)"
  "nan_free (UnaryOpNode p uop x) = nan_free x"
  "nan_free (FunctionNode p name args) = list_all nan_free args"
  "nan_free (MatrixNode p elements) = list_all (list_all nan_free) elements"
  "nan_free (TensorNode p dims vals) = list_all nan_free vals"
  by (auto simp: nan_free_def list_all_iff)

lemma clone_copy:
  "cloneable x \<Longrightarrow>
     (case clone x pool of
        (Inr y, pool') \<Rightarrow> pool \<le> pool' \<and> structure_of y = structure_of x
          \<and> addresses y \<subseteq> {pool..<pool'} \<and> ((y = Nullptr) = (x = Nullptr))
      | (Inl e, pool') \<Rightarrow> False)"
  "list_all cloneable xs \<Longrightarrow>
     (case clone_list xs acc pool of
        (Inr res, pool') \<Rightarrow> pool \<le> pool' \<and>
          (\<exists>ys. res = acc @ ys \<and> map structure_of ys = map structure_of xs
             \<and> (\<forall>y\<in>set ys. addresses y \<subseteq> {pool..<pool'}))
      | (Inl e, pool') \<Rightarrow> False)"
  "list_all (list_all cloneable) rows \<Longrightarrow>
     (case clone_rows rows racc pool of
        (Inr res, pool') \<Rightarrow> pool \<le> pool' \<and>
          (\<exists>rows'. res = racc @ rows' \<and> map (map structure_of) rows' = map (map structure_of) rows
             \<and> (\<forall>y\<in>set (concat rows'). addresses y \<subseteq> {pool..<pool'}))
      | (Inl e, pool') \<Rightarrow> False)"
proof (induction x pool and xs acc pool and rows racc pool rule: clone_clone_list_clone_rows.induct)
  case (4 p op l r pool)
  then show ?case
    by (auto split: prod.splits sum.splits) 
next
  case (5 p op x pool)
  then show ?case by (auto split: prod.splits sum.splits) 
next
  case (6 p name args pool)
  then show ?case by (fastforce split: prod.splits sum.splits) 
next
  case (7 p elements pool)
  then show ?case by (fastforce split: prod.splits sum.splits) 
next
  case (8 p dims vals pool)
  then show ?case by (fastforce split: prod.splits sum.splits) 
next
  case (10 acc pool)
  then show ?case by simp
next
  case (11 x xs acc pool)
  then show ?case
    by (auto split: prod.splits sum.splits simp: subset_iff) (fastforce+)
next
  case (12 acc pool)
  then show ?case by simp
next
  case (13 row rows acc pool)
  then show ?case
    by (auto split: prod.splits sum.splits simp: subset_iff) (fastforce+)
qed simp_all

lemma equals_of_copy:
  "structure_of a = structure_of b \<Longrightarrow> addresses a \<inter> addresses b = {} \<Longrightarrow>
     cloneable b \<Longrightarrow> nan_free b \<Longrightarrow> equals a b = Inr True"
  "map structure_of xs = map structure_of ys \<Longrightarrow>
     \<Union> (addresses ` set xs) \<inter> \<Union> (addresses ` set ys) = {} \<Longrightarrow>
     list_all cloneable ys \<Longrightarrow> list_all nan_free ys \<Longrightarrow> equals_list xs ys = Inr True"
  "map (map structure_of) rs = map (map structure_of) rs' \<Longrightarrow>
     \<Union> (addresses ` set (concat rs)) \<inter> \<Union> (addresses ` set (concat rs')) = {} \<Longrightarrow>
     list_all (list_all cloneable) rs' \<Longrightarrow> list_all (list_all nan_free) rs' \<Longrightarrow>
     equals_rows rs rs' = Inr True"
proof (induction a b and xs ys and rs rs' rule: equals_equals_list_equals_rows.induct)
  case (1 a b)
  note st = "1.prems"(1) and dj = "1.prems"(2) and cl = "1.prems"(3) and nf = "1.prems"(4)
  show ?case
  proof (cases b)
    case Nullptr
    with st have "a = Nullptr" by (cases a) simp_all
    with Nullptr show ?thesis by (simp add: equals.simps)
  next
    case (NumberNode q vb)
    with st obtain p where a: "a = NumberNode p vb" by (cases a) simp_all
    from dj have "p \<noteq> q" by (auto simp: a NumberNode)
    moreover from nf have "d_eq vb vb" by (cases vb) (simp_all add: NumberNode)
    ultimately show ?thesis by (simp add: equals.simps a NumberNode)
  next
    case (VariableNode q nb)
    with st obtain p where a: "a = VariableNode p nb" by (cases a) simp_all
    from dj have "p \<noteq> q" by (auto simp: a VariableNode)
    then show ?thesis by (simp add: equals.simps a VariableNode)
  next
    case (BinaryOpNode q opb lb rb)
    with st obtain p la ra where a: "a = BinaryOpNode p opb la ra"
      and s: "structure_of la = structure_of lb" "structure_of ra = structure_of rb"
      by (cases a) simp_all
    from dj have pq: "p \<noteq> q" and d: "addresses la \<inter> addresses lb = {}" "addresses ra \<inter> addresses rb = {}"
      by (auto simp: a BinaryOpNode)
    have pre: "address a \<noteq> address b" "\<not> (a = Nullptr \<or> b = Nullptr)" "\<not> node_type a \<noteq> node_type b"
      using pq by (simp_all add: a BinaryOpNode)
    have o: "\<not> opb \<noteq> opb" by simp
    from cl nf have c: "cloneable lb" "cloneable rb" "nan_free lb" "nan_free rb"
      by (simp_all add: BinaryOpNode)
    have l: "equals la lb = Inr True"
      using "1.IH"(1) [OF pre a BinaryOpNode o s(1) d(1) c(1) c(3)] .
    have r: "equals ra rb = Inr True"
      using "1.IH"(2) [OF pre a BinaryOpNode o l refl s(2) d(2) c(2) c(4)] .
    show ?thesis using pq l r by (simp add: equals.simps a BinaryOpNode)
  next
    case (UnaryOpNode q opb xb)
    with st obtain p xa where a: "a = UnaryOpNode p opb xa"
      and s: "structure_of xa = structure_of xb"
      by (cases a) simp_all
    from dj have pq: "p \<noteq> q" and d: "addresses xa \<inter> addresses xb = {}"
      by (auto simp: a UnaryOpNode)
    have pre: "address a \<noteq> address b" "\<not> (a = Nullptr \<or> b = Nullptr)" "\<not> node_type a \<noteq> node_type b"
      using pq by (simp_all add: a UnaryOpNode)
    have o: "\<not> opb \<noteq> opb" by simp
    from cl nf have c: "cloneable xb" "nan_free xb"
      by (simp_all add: UnaryOpNode)
    have x: "equals xa xb = Inr True"
      using "1.IH"(3) [OF pre a UnaryOpNode o s d c] .
    show ?thesis using pq x by (simp add: equals.simps a UnaryOpNode)
  next
    case (FunctionNode q nb argsb)
    with st obtain p argsa where a: "a = FunctionNode p nb argsa"
      and s: "map structure_of argsa = map structure_of argsb"
      by (cases a) simp_all
    from dj have pq: "p \<noteq> q"
      and d: "\<Union> (addresses ` set argsa) \<inter> \<Union> (addresses ` set argsb) = {}"
      by (auto simp: a FunctionNode)
    have pre: "address a \<noteq> address b" "\<not> (a = Nullptr \<or> b = Nullptr)" "\<not> node_type a \<noteq> node_type b"
      using pq by (simp_all add: a FunctionNode)
    from s have len: "length argsa = length argsb" by (rule map_eq_imp_length_eq)
    then have o: "\<not> (nb \<noteq> nb \<or> length argsa \<noteq> length argsb)" by simp
    from cl nf have c: "list_all cloneable argsb" "list_all nan_free argsb"
      by (simp_all add: FunctionNode)
    have x: "equals_list argsa argsb = Inr True"
      using "1.IH"(4) [OF pre a FunctionNode o s d c] .
    show ?thesis using pq x len by (simp add: equals.simps a FunctionNode)
  next
    case (MatrixNode q eb)
    with st obtain p ea where a: "a = MatrixNode p ea"
      and s: "map (map structure_of) ea = map (map structure_of) eb"
      by (cases a) simp_all
    from dj have pq: "p \<noteq> q"
      and d: "\<Union> (addresses ` set (concat ea)) \<inter> \<Union> (addresses ` set (concat eb)) = {}"
      by (auto simp: a MatrixNode)
    have pre: "address a \<noteq> address b" "\<not> (a = Nullptr \<or> b = Nullptr)" "\<not> node_type a \<noteq> node_type b"
      using pq by (simp_all add: a MatrixNode)
    from s have len: "length ea = length eb" by (rule map_eq_imp_length_eq)
    then have o: "\<not> length ea \<noteq> length eb" by simp
    from cl nf have c: "list_all (list_all cloneable) eb" "list_all (list_all nan_free) eb"
      by (simp_all add: MatrixNode)
    have x: "equals_rows ea eb = Inr True"
      using "1.IH"(5) [OF pre a MatrixNode o s d c] .
    show ?thesis using pq x len by (simp add: equals.simps a MatrixNode)
  next
    case (TensorNode q db valsb)
    with st obtain p valsa where a: "a = TensorNode p db valsa"
      and s: "map structure_of valsa = map structure_of valsb"
      by (cases a) simp_all
    from dj have pq: "p \<noteq> q"
      and d: "\<Union> (addresses ` set valsa) \<inter> \<Union> (addresses ` set valsb) = {}"
      by (auto simp: a TensorNode)
    have pre: "address a \<noteq> address b" "\<not> (a = Nullptr \<or> b = Nullptr)" "\<not> node_type a \<noteq> node_type b"
      using pq by (simp_all add: a TensorNode)
    from s have len: "length valsa = length valsb" by (rule map_eq_imp_length_eq)
    then have o: "\<not> (db \<noteq> db \<or> length valsa \<noteq> length valsb)" by simp
    from cl nf have c: "list_all cloneable valsb" "list_all nan_free valsb"
      by (simp_all add: TensorNode)
    have x: "equals_list valsa valsb = Inr True"
      using "1.IH"(6) [OF pre a TensorNode o s d c] .
    show ?thesis using pq x len by (simp add: equals.simps a TensorNode)
  qed (use cl in simp_all)
next
  case (2 x xs y ys)
  from "2.prems" have e: "equals x y = Inr True"
    by (intro "2.IH"(1)) auto
  from "2.prems" have "equals_list xs ys = Inr True"
    by (intro "2.IH"(2) [OF e refl]) auto
  with e show ?case by simp
next
  case (4 ra rsa rb rsb)
  from "4.prems"(1) have len: "length ra = length rb"
    by (auto dest: map_eq_imp_length_eq)
  then have n: "\<not> length ra \<noteq> length rb" by simp
  from "4.prems" have e: "equals_list ra rb = Inr True"
    by (intro "4.IH"(1) [OF n]) auto
  from "4.prems" have "equals_rows rsa rsb = Inr True"
    by (intro "4.IH"(2) [OF n e refl]) auto
  with e len show ?case by simp
qed simp_all

lemma address_in_addresses: "n \<noteq> Nullptr \<Longrightarrow> \<exists>p. address n = Some p \<and> p \<in> addresses n"
  by (cases n) (auto simp: addresses_def)

lemma clone_unhandled:
  "x \<noteq> Nullptr \<Longrightarrow> \<not> is_handled x \<Longrightarrow>
     clone x pool = (Inl (RuntimeError ''Unknown node type in clone''), pool)"
  by (cases x) simp_all

text \<open>
  C4, as amended. Let \<open>x\<close> be a pointer to a tree of Number, Variable, BinaryOp, UnaryOp,
  Function, Matrix and Tensor nodes (null children allowed), all of them objects of the
  pool. Then \<open>clone(x)\<close> returns a pointer \<open>y\<close> to a tree with the structure of \<open>x\<close>
  (variant tags, operators, names, values and children) that shares no object with \<open>x\<close>:
  \<open>y\<close> is not the pointer \<open>x\<close>, for a leaf as for an inner node. If no Number of \<open>x\<close>
  holds NaN, \<open>equals(y, x)\<close> is true. \<open>clone(nullptr)\<close> is \<open>nullptr\<close>.
\<close>

theorem clone_deep_copy:
  assumes "cloneable x" and "\<forall>a\<in>addresses x. a < pool"
  shows "\<exists>y pool'. clone x pool = (Inr y, pool')
           \<and> structure_of y = structure_of x
           \<and> addresses y \<inter> addresses x = {}
           \<and> (x \<noteq> Nullptr \<longrightarrow> y \<noteq> Nullptr \<and> address y \<noteq> address x)
           \<and> (x = Nullptr \<longrightarrow> y = Nullptr)
           \<and> (nan_free x \<longrightarrow> equals y x = Inr True)"
proof -
  from clone_copy(1) [OF assms(1), of pool]
  obtain y pool' where c: "clone x pool = (Inr y, pool')"
    and s: "structure_of y = structure_of x"
    and r: "addresses y \<subseteq> {pool..<pool'}"
    and n: "(y = Nullptr) = (x = Nullptr)"
    by (auto split: prod.splits sum.splits)
  from r assms(2) have d: "addresses y \<inter> addresses x = {}"
    by fastforce
  have i: "x \<noteq> Nullptr \<longrightarrow> y \<noteq> Nullptr \<and> address y \<noteq> address x"
  proof
    assume nx: "x \<noteq> Nullptr"
    with n have ny: "y \<noteq> Nullptr" by simp
    from address_in_addresses [OF nx] address_in_addresses [OF ny] d
    show "y \<noteq> Nullptr \<and> address y \<noteq> address x"
      using ny by auto
  qed
  have e: "nan_free x \<longrightarrow> equals y x = Inr True"
    using equals_of_copy(1) [OF s d assms(1)] by simp
  from c s d i n e show ?thesis by blast
qed

theorem clone_deep_copy_witness:
  "\<exists>y pool'. clone (BinaryOpNode 2 ADD (NumberNode 0 (Finite 1)) (VariableNode 1 ''x'')) 3 = (Inr y, pool')
     \<and> structure_of y = structure_of (BinaryOpNode 2 ADD (NumberNode 0 (Finite 1)) (VariableNode 1 ''x''))
     \<and> address y \<noteq> Some 2
     \<and> equals y (BinaryOpNode 2 ADD (NumberNode 0 (Finite 1)) (VariableNode 1 ''x'')) = Inr True"
proof -
  have c: "cloneable (BinaryOpNode 2 ADD (NumberNode 0 (Finite 1)) (VariableNode 1 ''x''))"
    by simp
  have a: "\<forall>a\<in>addresses (BinaryOpNode 2 ADD (NumberNode 0 (Finite 1)) (VariableNode 1 ''x'')). a < 3"
    by simp
  have n: "nan_free (BinaryOpNode 2 ADD (NumberNode 0 (Finite 1)) (VariableNode 1 ''x''))"
    by simp
  from clone_deep_copy [OF c a] n show ?thesis
    by auto
qed

text \<open>
  C4 as stated fails on the variants \<open>clone\<close> has no case for: the clone of a Boolean
  node is an exception.
\<close>

theorem clone_boolean_throws:
  "clone (BooleanNode 0 True) 1 = (Inl (RuntimeError ''Unknown node type in clone''), 1)"
  by simp

text \<open>A Number that holds NaN is cloned, and the clone is not \<open>equals\<close> to it.\<close>

lemma clone_nan_not_equal:
  "clone (NumberNode 0 NaN) 1 = (Inr (NumberNode 1 NaN), 2)
   \<and> equals (NumberNode 1 NaN) (NumberNode 0 NaN) = Inr False"
  by (simp add: equals.simps)

section \<open>Properties of simplify\<close>





text \<open>
  The operators the statement does not list: the inner switch has no case for them and
  leaves \<^verbatim>\<open>result\<close> at 0, so two Numbers under \<open>%\<close> fold to the Number 0.
\<close>

lemma simplify_unlisted_operator:
  "simplify (BinaryOpNode 2 MOD (NumberNode 0 (Finite 7)) (NumberNode 1 (Finite 3))) 3
     = (Inr (NumberNode 5 (Finite 0)), 6)"
  by simp

section \<open>Properties of the parser\<close>

subsection \<open>The recursion equations\<close>

lemmas parser_fn_defs = parse_expression_def infix_loop_def parse_prefix_def parse_infix_def
  grouping_def matrix_def matrix_rows_def expression_list_def unary_def binary_def
  assignment_def call_def

lemma parse_expression_Suc:
  "parse_expression (Suc n) prec ps =
     pbind (parse_prefix n ps) (\<lambda>expr ps1. infix_loop n prec expr ps1)"
  unfolding parser_fn_defs by (simp add: parse_expression_body_def)

lemma infix_loop_Suc:
  "infix_loop (Suc n) prec expr ps =
     (if prec \<le> precedence (get_rule (tok_type (current_token ps)))
      then pbind (parse_infix n expr ps) (\<lambda>expr1 ps1. infix_loop n prec expr1 ps1)
      else returns (expr, ps))"
  unfolding parser_fn_defs by (simp add: infix_loop_body_def)

lemma parse_prefix_Suc:
  "parse_prefix (Suc n) ps =
     (case prefix_handler (get_rule (tok_type (current_token ps))) of
        None \<Rightarrow> throws (throw_error ''Expected expression'' ps)
      | Some H_number \<Rightarrow> Some (number ps)
      | Some H_variable \<Rightarrow> Some (variable ps)
      | Some H_string \<Rightarrow> Some (string_lit ps)
      | Some H_boolean \<Rightarrow> Some (boolean ps)
      | Some H_constant \<Rightarrow> Some (constant_lit ps)
      | Some H_grouping \<Rightarrow> grouping n ps
      | Some H_matrix \<Rightarrow> matrix n ps
      | Some H_unary \<Rightarrow> unary n ps)"
  unfolding parser_fn_defs by (simp add: parse_prefix_body_def)

lemma parse_infix_Suc:
  "parse_infix (Suc n) left ps =
     (case infix_handler (get_rule (tok_type (current_token ps))) of
        None \<Rightarrow> throws (RuntimeError ''bad_function_call'')
      | Some H_call \<Rightarrow> call n left ps
      | Some H_binary \<Rightarrow> binary n left ps
      | Some H_assignment \<Rightarrow> assignment n left ps)"
  unfolding parser_fn_defs by (simp add: parse_infix_body_def)

lemma grouping_Suc:
  "grouping (Suc n) ps =
     pbind (parse_expression n PREC_ASSIGNMENT (advance ps))
       (\<lambda>expr ps1. after_consume T_RPAREN ''Expect ')' after expression'' ps1
          (\<lambda>ps2. returns (expr, ps2)))"
  unfolding parser_fn_defs by (simp add: grouping_body_def)

lemma matrix_Suc:
  "matrix (Suc n) ps =
     (case match T_RBRACKET (advance ps) of
        (True, ps1) \<Rightarrow> returns (create (\<lambda>p. MatrixNode p []) ps1)
      | (False, ps1) \<Rightarrow>
          pbind (matrix_rows n [] ps1)
            (\<lambda>rows ps2. after_consume T_RBRACKET ''Expect ']' after matrix rows'' ps2
               (\<lambda>ps3. returns (create (\<lambda>p. MatrixNode p rows) ps3))))"
  unfolding parser_fn_defs by (simp add: matrix_body_def)

lemma matrix_rows_Suc:
  "matrix_rows (Suc n) rows ps =
     pbind
       (case match T_LBRACKET ps of
          (True, ps1) \<Rightarrow>
            (case match T_RBRACKET ps1 of
               (True, ps2) \<Rightarrow> returns ([], ps2)
             | (False, ps2) \<Rightarrow>
                 pbind (expression_list n [] ps2)
                   (\<lambda>row ps3. after_consume T_RBRACKET ''Expect ']' after row elements'' ps3
                      (\<lambda>ps4. returns (row, ps4))))
        | (False, ps1) \<Rightarrow>
            pbind (parse_expression n PREC_ASSIGNMENT ps1) (\<lambda>expr ps2. returns ([expr], ps2)))
       (\<lambda>row ps5.
          case match T_COMMA ps5 of
            (True, ps6) \<Rightarrow> matrix_rows n (rows @ [row]) ps6
          | (False, ps6) \<Rightarrow> returns (rows @ [row], ps6))"
  unfolding parser_fn_defs by (simp add: matrix_rows_body_def)

lemma parser_fns_0:
  "parse_expression 0 prec ps = None" "infix_loop 0 prec expr ps = None" "parse_prefix 0 ps = None"
  "parse_infix 0 left ps = None" "grouping 0 ps = None" "matrix 0 ps = None"
  "matrix_rows 0 rows ps = None" "expression_list 0 acc ps = None" "unary 0 ps = None"
  "binary 0 left ps = None" "assignment 0 left ps = None" "call 0 left ps = None"
  unfolding parser_fn_defs by simp_all

lemma expression_list_Suc:
  "expression_list (Suc n) acc ps =
     pbind (parse_expression n PREC_ASSIGNMENT ps)
       (\<lambda>expr ps1.
          case match T_COMMA ps1 of
            (True, ps2) \<Rightarrow> expression_list n (acc @ [expr]) ps2
          | (False, ps2) \<Rightarrow> returns (acc @ [expr], ps2))"
  unfolding parser_fn_defs by (simp add: expression_list_body_def)

lemma unary_Suc:
  "unary (Suc n) ps =
     pbind (parse_expression n PREC_UNARY (advance ps))
       (\<lambda>right ps1. unary_node (tok_type (current_token ps)) right ps1)"
  unfolding parser_fn_defs by (simp add: unary_body_def)

lemma binary_Suc:
  "binary (Suc n) left ps =
     pbind (parse_expression n (precedence (get_rule (tok_type (current_token ps)))) (advance ps))
       (\<lambda>right ps1. binary_node (tok_type (current_token ps)) left right ps1)"
  unfolding parser_fn_defs by (simp add: binary_body_def)

lemma assignment_Suc:
  "assignment (Suc n) left ps =
     (if node_type left \<noteq> Some VARIABLE then throws (throw_error ''Invalid assignment target'' ps)
      else pbind (parse_expression n PREC_ASSIGNMENT (advance ps))
             (\<lambda>v ps1. returns (create (\<lambda>p. AssignmentNode p (node_name left) v) ps1)))"
  unfolding parser_fn_defs by (simp add: assignment_body_def)

lemma call_Suc:
  "call (Suc n) left ps =
     (if node_type left \<noteq> Some VARIABLE
      then throws (throw_error ''Can only call functions and methods'' ps)
      else (case match T_RPAREN ps of
              (True, ps1) \<Rightarrow> returns (create (\<lambda>p. FunctionNode p (node_name left) []) ps1)
            | (False, ps1) \<Rightarrow>
                pbind (expression_list n [] ps1)
                  (\<lambda>args ps2. after_consume T_RPAREN ''Expect ')' after arguments'' ps2
                     (\<lambda>ps3. returns (create (\<lambda>p. FunctionNode p (node_name left) args) ps3)))))"
  unfolding parser_fn_defs by (simp add: call_body_def)

lemmas parser_Suc =
  parse_expression_Suc infix_loop_Suc parse_prefix_Suc parse_infix_Suc grouping_Suc
  matrix_Suc matrix_rows_Suc expression_list_Suc unary_Suc binary_Suc assignment_Suc call_Suc

lemma pbind_simps [simp]:
  "pbind None f = None"
  "pbind (throws e) f = throws e"
  "pbind (returns (x, ps)) f = f x ps"
  "pbind (Some (Inl e)) f = Some (Inl e)"
  "pbind (Some (Inr (x, ps))) f = f x ps"
  by (simp_all add: pbind_def throws_def returns_def)

subsection \<open>The parser as a reader of a token list\<close>

lemma current_parser_at [simp]:
  "current_token (parser_at (t # ts) eof p) = t"
  "current_token (parser_at [] eof p) = eof"
  by (simp_all add: parser_at_def Parser_new_def Lexer_next_def split: list.splits)

lemma pool_parser_at [simp]: "node_pool (parser_at ts eof p) = p"
  by (simp add: parser_at_def Parser_new_def Lexer_next_def split: list.splits prod.splits)

lemma advance_parser_at [simp]:
  "advance (parser_at (t # ts) eof p) = parser_at ts eof p"
  "advance (parser_at [] eof p) = parser_at [] eof p"
  by (simp_all add: parser_at_def Parser_new_def Lexer_next_def advance_def split: list.splits)

lemma create_parser_at [simp]:
  "create mk (parser_at ts eof p) = (mk p, parser_at ts eof (Suc p))"
  by (simp add: create_def parser_at_def Parser_new_def Lexer_next_def split: list.splits prod.splits)

lemma throw_error_parser_at [simp]:
  "throw_error message (parser_at (t # ts) eof p) = ParseError message (tok_line t) (tok_column t)"
  "throw_error message (parser_at [] eof p) = ParseError message (tok_line eof) (tok_column eof)"
  by (simp_all add: throw_error_def)

lemma parse_parser_at: "parse fuel \<lparr>pending = ts, eof_token = eof\<rparr> p = parse_expression fuel PREC_ASSIGNMENT (parser_at ts eof p)"
  by (simp add: parse_def parser_at_def)

lemma fuel_numeral: "numeral v + k = Suc (pred_numeral v + k)"
  by (simp add: numeral_eq_Suc)

lemmas prec_defs = PREC_NONE_def PREC_ASSIGNMENT_def PREC_TERNARY_def PREC_OR_def PREC_AND_def
  PREC_EQUALITY_def PREC_COMPARISON_def PREC_TERM_def PREC_FACTOR_def PREC_UNARY_def
  PREC_POWER_def PREC_CALL_def PREC_PRIMARY_def

lemmas handler_defs = number_def variable_def string_lit_def boolean_def constant_lit_def
  unary_node_def binary_node_def after_consume_def consume_def match_def rule_def

subsection \<open>Chains of binary operators\<close>

lemma binary_node_op:
  "infix_handler (get_rule ty) = Some H_binary \<Longrightarrow>
     binary_node ty left right ps = returns (create (\<lambda>p. BinaryOpNode p (binary_op_of ty) left right) ps)"
  by (cases ty) (simp_all add: binary_node_def rule_def)

lemma parse_prefix_operand:
  "is_operand t \<Longrightarrow>
     parse_prefix (Suc n) (parser_at (t # ts) eof p) = returns (operand_node p t, parser_at ts eof (Suc p))"
  by (auto simp: is_operand_def parse_prefix_Suc rule_def number_def variable_def operand_node_def
        returns_def)

lemma chain_parses_right_nested:
  assumes "list_all (\<lambda>(opr, t). is_binary_at q opr \<and> is_operand t) ops"
    and "is_operand t0"
    and "prec \<le> q"
    and "precedence (get_rule (tok_type (current_token (parser_at rest eof 0)))) < prec"
    and "4 * length ops + 2 \<le> fuel"
  shows "parse_expression fuel prec (parser_at (chain_tokens t0 ops @ rest) eof p)
           = returns (fst (right_nested p t0 ops), parser_at rest eof (snd (right_nested p t0 ops)))"
  using assms
proof (induction ops arbitrary: t0 p prec fuel)
  case Nil
  from Nil.prems(5) obtain m where f: "fuel = Suc (Suc m)"
    by (metis add_0 le_Suc_ex list.size(3) mult_0_right numeral_2_eq_2 add_Suc)
  have fo: "\<not> prec \<le> precedence (get_rule (tok_type (current_token (parser_at rest eof (Suc p)))))"
    using Nil.prems(4) by (cases rest) simp_all
  show ?case
    using Nil.prems(2) fo by (simp add: f parse_expression_Suc parse_prefix_operand infix_loop_Suc)
next
  case (Cons a ops)
  obtain opr t where a: "a = (opr, t)" by (cases a)
  from Cons.prems(1) have o: "is_binary_at q opr" and t: "is_operand t"
    and rest: "list_all (\<lambda>(opr, t). is_binary_at q opr \<and> is_operand t) ops"
    by (simp_all add: a)
  from Cons.prems(5) obtain m where f: "fuel = Suc (Suc (Suc (Suc m)))" and m: "4 * length ops + 2 \<le> m"
    by (auto simp: numeral_eq_Suc dest!: le_Suc_ex)
  from o have h: "infix_handler (get_rule (tok_type opr)) = Some H_binary"
    and q: "precedence (get_rule (tok_type opr)) = q"
    by (simp_all add: is_binary_at_def)
  have low: "precedence (get_rule (tok_type (current_token (parser_at rest eof 0)))) < q"
    using Cons.prems(3,4) by simp
  have inner: "parse_expression m q (parser_at (chain_tokens t ops @ rest) eof (Suc p))
      = returns (fst (right_nested (Suc p) t ops), parser_at rest eof (snd (right_nested (Suc p) t ops)))"
    using rest t low m by (intro Cons.IH) simp_all
  have fo: "\<And>p'. \<not> prec \<le> precedence (get_rule (tok_type (current_token (parser_at rest eof p'))))"
    using Cons.prems(4) by (cases rest) simp_all
  show ?case
    using Cons.prems(2,3) fo
    by (simp add: f a parse_expression_Suc parse_prefix_operand infix_loop_Suc [of "Suc (Suc m)"]
          infix_loop_Suc [of "Suc m"] q h parse_infix_Suc binary_Suc inner binary_node_op
          split: prod.splits)
qed

lemmas eval_parse = parse_parser_at fuel_numeral parser_Suc handler_defs prec_defs Token.defs

text \<open>
  The token lists below are what \<^verbatim>\<open>Lexer::next\<close> returns for the text named with them: an
  identifier or a number carries the column where it starts, an operator or punctuation
  token the column after it, and the end-of-input token the column after the last
  character.
\<close>

text \<open>
  C3. \<open>*\<close> and \<open>/\<close> bind tighter than \<open>+\<close> and \<open>-\<close>. The handler \<open>binary\<close> parses
  its right operand with the precedence of its own operator as the minimum, so a chain of
  operands joined by binary operators of one precedence level, read with a minimum not
  above that level and followed by a token of lower precedence, parses to the tree that
  groups to the right, whatever depth of calls beyond \<open>4 * length ops + 2\<close> is allowed.
  The tokens of \<open>2+3*4\<close> parse to \<open>ADD(2, MUL(3, 4))\<close>, which evaluates to 14.
\<close>

theorem binary_operators_group_right:
  "precedence (get_rule T_PLUS) < precedence (get_rule T_STAR)
   \<and> precedence (get_rule T_PLUS) < precedence (get_rule T_SLASH)
   \<and> precedence (get_rule T_MINUS) < precedence (get_rule T_STAR)
   \<and> precedence (get_rule T_MINUS) < precedence (get_rule T_SLASH)
   \<and> binary (Suc n) left ps =
        pbind (parse_expression n (precedence (get_rule (tok_type (current_token ps)))) (advance ps))
          (\<lambda>right ps1. binary_node (tok_type (current_token ps)) left right ps1)
   \<and> (list_all (\<lambda>(opr, t). is_binary_at q opr \<and> is_operand t) ops \<longrightarrow> is_operand t0 \<longrightarrow>
        prec \<le> q \<longrightarrow> precedence (get_rule (tok_type (current_token (parser_at rest eof 0)))) < prec \<longrightarrow>
        4 * length ops + 2 \<le> fuel \<longrightarrow>
        parse_expression fuel prec (parser_at (chain_tokens t0 ops @ rest) eof p)
          = returns (fst (right_nested p t0 ops), parser_at rest eof (snd (right_nested p t0 ops))))
   \<and> parse (20 + k)
         \<lparr>pending = [Token.make T_NUMBER ''2'' (Finite 2) 1 1,
                     Token.make T_PLUS [] (Finite 0) 1 3,
                     Token.make T_NUMBER ''3'' (Finite 3) 1 3,
                     Token.make T_STAR [] (Finite 0) 1 5,
                     Token.make T_NUMBER ''4'' (Finite 4) 1 5],
           eof_token = Token.make T_EOF [] (Finite 0) 1 6\<rparr> 0
       = returns
           (BinaryOpNode 4 ADD (NumberNode 0 (Finite 2))
              (BinaryOpNode 3 MUL (NumberNode 1 (Finite 3)) (NumberNode 2 (Finite 4))),
            parser_at [] (Token.make T_EOF [] (Finite 0) 1 6) 5)
   \<and> fst (evaluate
              (BinaryOpNode 4 ADD (NumberNode 0 (Finite 2))
                 (BinaryOpNode 3 MUL (NumberNode 1 (Finite 3)) (NumberNode 2 (Finite 4))))
              EvalContext_new)
       = Inr (Finite 14)"
proof -
  have a: "precedence (get_rule T_PLUS) < precedence (get_rule T_STAR)"
    "precedence (get_rule T_PLUS) < precedence (get_rule T_SLASH)"
    "precedence (get_rule T_MINUS) < precedence (get_rule T_STAR)"
    "precedence (get_rule T_MINUS) < precedence (get_rule T_SLASH)"
    by (simp_all add: rule_def prec_defs)
  have c: "list_all (\<lambda>(opr, t). is_binary_at q opr \<and> is_operand t) ops \<longrightarrow> is_operand t0 \<longrightarrow>
        prec \<le> q \<longrightarrow> precedence (get_rule (tok_type (current_token (parser_at rest eof 0)))) < prec \<longrightarrow>
        4 * length ops + 2 \<le> fuel \<longrightarrow>
        parse_expression fuel prec (parser_at (chain_tokens t0 ops @ rest) eof p)
          = returns (fst (right_nested p t0 ops), parser_at rest eof (snd (right_nested p t0 ops)))"
    using chain_parses_right_nested by blast
  have e: "parse (20 + k)
         \<lparr>pending = [Token.make T_NUMBER ''2'' (Finite 2) 1 1,
                     Token.make T_PLUS [] (Finite 0) 1 3,
                     Token.make T_NUMBER ''3'' (Finite 3) 1 3,
                     Token.make T_STAR [] (Finite 0) 1 5,
                     Token.make T_NUMBER ''4'' (Finite 4) 1 5],
           eof_token = Token.make T_EOF [] (Finite 0) 1 6\<rparr> 0
       = returns
           (BinaryOpNode 4 ADD (NumberNode 0 (Finite 2))
              (BinaryOpNode 3 MUL (NumberNode 1 (Finite 3)) (NumberNode 2 (Finite 4))),
            parser_at [] (Token.make T_EOF [] (Finite 0) 1 6) 5)"
    by (simp add: eval_parse) (simp add: numeral_eq_Suc)
  have v: "fst (evaluate
              (BinaryOpNode 4 ADD (NumberNode 0 (Finite 2))
                 (BinaryOpNode 3 MUL (NumberNode 1 (Finite 3)) (NumberNode 2 (Finite 4))))
              EvalContext_new)
       = Inr (Finite 14)"
    by simp
  from a binary_Suc [of n left ps] c e v show ?thesis
    by blast
qed

theorem binary_operators_group_right_witness:
  "parse_expression 10 PREC_ASSIGNMENT
     (parser_at [Token.make T_IDENTIFIER ''a'' (Finite 0) 1 1,
                 Token.make T_MINUS [] (Finite 0) 1 3,
                 Token.make T_IDENTIFIER ''b'' (Finite 0) 1 3,
                 Token.make T_MINUS [] (Finite 0) 1 5,
                 Token.make T_IDENTIFIER ''c'' (Finite 0) 1 5]
        (Token.make T_EOF [] (Finite 0) 1 6) 0)
   = returns
       (BinaryOpNode 4 SUB (VariableNode 0 ''a'')
          (BinaryOpNode 3 SUB (VariableNode 1 ''b'') (VariableNode 2 ''c'')),
        parser_at [] (Token.make T_EOF [] (Finite 0) 1 6) 5)"
proof -
  let ?m = "Token.make T_MINUS [] (Finite 0) 1 3"
  let ?m' = "Token.make T_MINUS [] (Finite 0) 1 5"
  let ?a = "Token.make T_IDENTIFIER ''a'' (Finite 0) 1 1"
  let ?b = "Token.make T_IDENTIFIER ''b'' (Finite 0) 1 3"
  let ?c = "Token.make T_IDENTIFIER ''c'' (Finite 0) 1 5"
  let ?eof = "Token.make T_EOF [] (Finite 0) 1 6"
  have h1: "list_all (\<lambda>(opr, t). is_binary_at PREC_TERM opr \<and> is_operand t) [(?m, ?b), (?m', ?c)]"
    by (simp add: is_binary_at_def is_operand_def Token.defs rule_def)
  have h2: "is_operand ?a"
    by (simp add: is_operand_def Token.defs)
  have h3: "PREC_ASSIGNMENT \<le> PREC_TERM"
    by (simp add: prec_defs)
  have h4: "precedence (get_rule (tok_type (current_token (parser_at [] ?eof 0)))) < PREC_ASSIGNMENT"
    by (simp add: Token.defs rule_def prec_defs)
  have h5: "4 * length [(?m, ?b), (?m', ?c)] + 2 \<le> (10::nat)"
    by simp
  from binary_operators_group_right [where q = PREC_TERM and ops = "[(?m, ?b), (?m', ?c)]"
      and ?t0.0 = ?a and prec = PREC_ASSIGNMENT and rest = "[]" and eof = ?eof and fuel = 10 and p = 0]
    h1 h2 h3 h4 h5
  have "parse_expression 10 PREC_ASSIGNMENT (parser_at (chain_tokens ?a [(?m, ?b), (?m', ?c)] @ []) ?eof 0)
     = returns (fst (right_nested 0 ?a [(?m, ?b), (?m', ?c)]),
                parser_at [] ?eof (snd (right_nested 0 ?a [(?m, ?b), (?m', ?c)])))"
    by blast
  then show ?thesis
    by (simp add: operand_node_def Token.defs) (simp add: numeral_eq_Suc)
qed

subsection \<open>Calls\<close>

lemma call_on_non_variable:
  "node_type left \<noteq> Some VARIABLE \<Longrightarrow>
     call (Suc n) left ps = throws (throw_error ''Can only call functions and methods'' ps)"
  by (simp add: call_Suc)

text \<open>
  C2. The tokens of \<open>square(9)\<close> do not parse to a Function node: \<open>call\<close> starts on the
  \<open>(\<close> that made the loop of \<open>parse_expression\<close> choose it and does not step over it, so the
  argument list is read from the \<open>(\<close>, as a parenthesized expression that takes the \<open>)\<close>,
  and the \<open>)\<close> that \<open>call\<close> then asks for is the end of the input. This holds for every
  depth of calls from 20 on.
\<close>

theorem parse_square_9_fails:
  "parse (20 + k)
     \<lparr>pending = [Token.make T_IDENTIFIER ''square'' (Finite 0) 1 1,
                 Token.make T_LPAREN [] (Finite 0) 1 8,
                 Token.make T_NUMBER ''9'' (Finite 9) 1 8,
                 Token.make T_RPAREN [] (Finite 0) 1 10],
       eof_token = Token.make T_EOF [] (Finite 0) 1 10\<rparr> 0
   = Some (Inl (ParseError ''Expect ')' after arguments'' 1 10))"
  by (simp add: eval_parse throws_def)

text \<open>
  The same slip on other calls: an empty argument list and a list of two arguments fail,
  and a call is accepted when a second \<open>)\<close> follows. A call on a number fails as the
  specification says.
\<close>

lemma parse_empty_call_fails:
  "parse (20 + k)
     \<lparr>pending = [Token.make T_IDENTIFIER ''square'' (Finite 0) 1 1,
                 Token.make T_LPAREN [] (Finite 0) 1 8,
                 Token.make T_RPAREN [] (Finite 0) 1 9],
       eof_token = Token.make T_EOF [] (Finite 0) 1 9\<rparr> 0
   = Some (Inl (ParseError ''Expected expression'' 1 9))"
  by (simp add: eval_parse throws_def)

lemma parse_two_arguments_fails:
  "parse (20 + k)
     \<lparr>pending = [Token.make T_IDENTIFIER ''max'' (Finite 0) 1 1,
                 Token.make T_LPAREN [] (Finite 0) 1 5,
                 Token.make T_NUMBER ''1'' (Finite 1) 1 5,
                 Token.make T_COMMA [] (Finite 0) 1 7,
                 Token.make T_NUMBER ''7'' (Finite 7) 1 7,
                 Token.make T_RPAREN [] (Finite 0) 1 9],
       eof_token = Token.make T_EOF [] (Finite 0) 1 9\<rparr> 0
   = Some (Inl (ParseError ''Expect ')' after expression'' 1 7))"
  by (simp add: eval_parse throws_def)

lemma parse_call_with_second_paren:
  "parse (20 + k)
     \<lparr>pending = [Token.make T_IDENTIFIER ''square'' (Finite 0) 1 1,
                 Token.make T_LPAREN [] (Finite 0) 1 8,
                 Token.make T_NUMBER ''9'' (Finite 9) 1 8,
                 Token.make T_RPAREN [] (Finite 0) 1 10,
                 Token.make T_RPAREN [] (Finite 0) 1 11],
       eof_token = Token.make T_EOF [] (Finite 0) 1 11\<rparr> 0
   = Some (Inr (FunctionNode 2 ''square'' [NumberNode 1 (Finite 9)],
                parser_at [] (Token.make T_EOF [] (Finite 0) 1 11) 3))"
  by (simp add: eval_parse returns_def) (simp add: numeral_eq_Suc)

lemma parse_call_on_number_fails:
  "parse (20 + k)
     \<lparr>pending = [Token.make T_NUMBER ''2'' (Finite 2) 1 1,
                 Token.make T_LPAREN [] (Finite 0) 1 3,
                 Token.make T_NUMBER ''3'' (Finite 3) 1 3,
                 Token.make T_RPAREN [] (Finite 0) 1 5],
       eof_token = Token.make T_EOF [] (Finite 0) 1 5\<rparr> 0
   = Some (Inl (ParseError ''Can only call functions and methods'' 1 3))"
  by (simp add: eval_parse throws_def)

end
